theory Spec2Isabelle
  imports Main "HOL-Library.Sublist"
begin

section \<open>Strings\<close>

text \<open>
  A JavaScript string is a sequence of code units. It is modelled as a \<^typ>\<open>string\<close>, one
  \<^typ>\<open>char\<close> for each code unit, which covers the strings whose code units are below 256.
  The functions of this section are the string methods and the character classes of regular
  expressions that the call trigger component uses.
\<close>

definition is_digit :: "char \<Rightarrow> bool" where
  \<comment> \<open>the class \<open>\d\<close>, and so the complement of \<open>\D\<close>: the ten ASCII digits\<close>
  "is_digit c = (c \<in> set ''0123456789'')"

definition lower_letters :: string where
  "lower_letters = ''abcdefghijklmnopqrstuvwxyz''"

definition upper_letters :: string where
  "upper_letters = ''ABCDEFGHIJKLMNOPQRSTUVWXYZ''"

definition is_word_char :: "char \<Rightarrow> bool" where
  \<comment> \<open>the class \<open>\w\<close>: ASCII letters, digits and the underscore\<close>
  "is_word_char c =
     (c \<in> set lower_letters \<or> c \<in> set upper_letters \<or> is_digit c \<or> c = CHR ''_'')"

definition is_line_terminator :: "char \<Rightarrow> bool" where
  \<comment> \<open>line feed and carriage return: the characters that \<open>.\<close> does not match\<close>
  "is_line_terminator c = (c = CHR 0x0A \<or> c = CHR 0x0D)"

definition is_space :: "char \<Rightarrow> bool" where
  \<comment> \<open>the class \<open>\s\<close>, which is also what \<open>trim\<close> removes: tab, line feed, vertical tab,
      form feed, carriage return, space and the no-break space\<close>
  "is_space c = (c \<in> set [CHR 0x09, CHR 0x0A, CHR 0x0B, CHR 0x0C, CHR 0x0D, CHR 0x20, CHR 0xA0])"

definition toUpperCase_char :: "char \<Rightarrow> char" where
  "toUpperCase_char c =
     (case map_of (zip lower_letters upper_letters) c of Some u \<Rightarrow> u | None \<Rightarrow> c)"

definition startsWith :: "string \<Rightarrow> string \<Rightarrow> bool" where
  "startsWith s p = (take (length p) s = p)"

definition trim :: "string \<Rightarrow> string" where
  "trim s = rev (dropWhile is_space (rev (dropWhile is_space s)))"

fun split_from :: "char \<Rightarrow> string \<Rightarrow> string \<Rightarrow> string list" where
  \<comment> \<open>the second argument holds, reversed, the piece read so far\<close>
  "split_from sep piece [] = [rev piece]"
| "split_from sep piece (c # cs) =
     (if c = sep then rev piece # split_from sep [] cs else split_from sep (c # piece) cs)"

definition split :: "string \<Rightarrow> char \<Rightarrow> string list" where
  "split s sep = split_from sep [] s"

fun join :: "string \<Rightarrow> string list \<Rightarrow> string" where
  "join sep [] = []"
| "join sep [x] = x"
| "join sep (x # y # ys) = x @ sep @ join sep (y # ys)"

definition digit_char :: "nat \<Rightarrow> char" where
  "digit_char d = ''0123456789'' ! (d mod 10)"

function show_nat :: "nat \<Rightarrow> string" where
  "show_nat n = (if n < 10 then [digit_char n] else show_nat (n div 10) @ [digit_char (n mod 10)])"
  by pat_completeness auto
termination
  by (relation "measure (\<lambda>n. n)") auto

definition show_int :: "int \<Rightarrow> string" where
  "show_int i = (if i < 0 then CHR ''-'' # show_nat (nat (- i)) else show_nat (nat i))"

section \<open>JavaScript values\<close>

text \<open>
  The values that reach the component are the JSON documents of the backend's responses and
  what the component builds from them. \<open>JObj\<close> holds the own properties of an object in the
  order \<open>Object.keys\<close> lists them, every key once. Numbers are the integers, which \<open>show_int\<close>
  renders as JavaScript does while their magnitude is below \<open>10^21\<close>; the component does no
  arithmetic on a number it receives.
\<close>

datatype jsval =
    JUndefined
  | JNull
  | JBool bool
  | JNum int
  | JStr string
  | JArr "jsval list"
  | JObj "(string \<times> jsval) list"

datatype js_error =
    TypeError          \<comment> \<open>a property read on \<open>null\<close> or \<open>undefined\<close>, or a call of a non-function\<close>
  | SyntaxError        \<comment> \<open>a text that is not JSON\<close>
  | NetworkError       \<comment> \<open>a rejected \<open>fetch\<close>\<close>
  | Error jsval        \<comment> \<open>\<open>new Error(message)\<close>\<close>

fun truthy :: "jsval \<Rightarrow> bool" where
  "truthy JUndefined = False"
| "truthy JNull = False"
| "truthy (JBool b) = b"
| "truthy (JNum n) = (n \<noteq> 0)"
| "truthy (JStr s) = (s \<noteq> [])"
| "truthy (JArr xs) = True"
| "truthy (JObj kvs) = True"

definition js_or :: "jsval \<Rightarrow> jsval \<Rightarrow> jsval" where
  \<comment> \<open>\<open>a || b\<close>, for operands whose evaluation has no effect\<close>
  "js_or a b = (if truthy a then a else b)"

fun get_prop :: "jsval \<Rightarrow> string \<Rightarrow> js_error + jsval" where
  \<comment> \<open>\<open>v.key\<close>, for the keys the component reads: the field names of the backend's documents,
      none of which a string, a number, a boolean or an array has as a property\<close>
  "get_prop JUndefined key = Inl TypeError"
| "get_prop JNull key = Inl TypeError"
| "get_prop (JObj kvs) key = Inr (case map_of kvs key of Some v \<Rightarrow> v | None \<Rightarrow> JUndefined)"
| "get_prop v key = Inr JUndefined"

fun toString :: "jsval \<Rightarrow> string" where
  \<comment> \<open>\<open>String(v)\<close>; an array is its elements joined by commas, where \<open>null\<close> and \<open>undefined\<close>
      elements give the empty string\<close>
  "toString JUndefined = ''undefined''"
| "toString JNull = ''null''"
| "toString (JBool b) = (if b then ''true'' else ''false'')"
| "toString (JNum n) = show_int n"
| "toString (JStr s) = s"
| "toString (JArr xs) =
     join '','' (map (\<lambda>x. if x = JUndefined \<or> x = JNull then [] else toString x) xs)"
| "toString (JObj kvs) = ''[object Object]''"

definition array_join :: "jsval list \<Rightarrow> string \<Rightarrow> string" where
  \<comment> \<open>\<open>Array.prototype.join\<close>\<close>
  "array_join xs sep =
     join sep (map (\<lambda>x. if x = JUndefined \<or> x = JNull then [] else toString x) xs)"

fun own_entries :: "jsval \<Rightarrow> (string \<times> jsval) list" where
  \<comment> \<open>the keys of \<open>Object.keys(v)\<close>, each with \<open>v[key]\<close>: the properties of an object, the indices
      of an array or of a string, nothing for a number or a boolean\<close>
  "own_entries (JObj kvs) = kvs"
| "own_entries (JArr xs) = zip (map show_nat [0..<length xs]) xs"
| "own_entries (JStr s) = zip (map show_nat [0..<length s]) (map (\<lambda>c. JStr [c]) s)"
| "own_entries v = []"

fun set_prop :: "string \<Rightarrow> jsval \<Rightarrow> (string \<times> jsval) list \<Rightarrow> (string \<times> jsval) list" where
  \<comment> \<open>\<open>obj[key] = v\<close>: an existing property gets the new value and keeps its place, a new
      one is added after the others. The list is in the order of the first assignments, which
      is the order of \<open>Object.keys\<close> but for keys that are array indices: those JavaScript
      lists first. The properties of the key information read the list through \<open>map_of\<close>.\<close>
  "set_prop key v [] = [(key, v)]"
| "set_prop key v ((k, w) # kvs) =
     (if k = key then (k, v) # kvs else (k, w) # set_prop key v kvs)"

section \<open>The phone formatter\<close>

definition formatPhoneNumber :: "string \<Rightarrow> string" where
  "formatPhoneNumber phone =
     (let digitsOnly = filter is_digit phone in
      if startsWith digitsOnly ''92'' then ''+'' @ digitsOnly
      else if startsWith digitsOnly ''03'' \<and> length digitsOnly = 11
        then ''+92'' @ drop 1 digitsOnly
      else if length digitsOnly = 10 \<and> startsWith digitsOnly ''3''
        then ''+92'' @ digitsOnly
      else if digitsOnly \<noteq> [] then ''+'' @ digitsOnly else [])"

text \<open>
  The normalisation algorithm as the specification words it, in five numbered steps over the
  digits of the input.
\<close>

definition strip_non_digits :: "string \<Rightarrow> string" where
  "strip_non_digits raw = [c \<leftarrow> raw. is_digit c]"

definition step1 :: "string \<Rightarrow> string option" where
  \<comment> \<open>digits start with 92: prefix with +\<close>
  "step1 digits = (if prefix ''92'' digits then Some (CHR ''+'' # digits) else None)"

definition step2 :: "string \<Rightarrow> string option" where
  \<comment> \<open>digits start with 03 and total length is 11: drop the leading 0, prefix +92\<close>
  "step2 digits =
     (if prefix ''03'' digits \<and> length digits = 11 then Some (''+92'' @ tl digits) else None)"

definition step3 :: "string \<Rightarrow> string option" where
  \<comment> \<open>total length is 10 and starts with 3: prefix +92 directly\<close>
  "step3 digits =
     (if length digits = 10 \<and> prefix ''3'' digits then Some (''+92'' @ digits) else None)"

definition step4 :: "string \<Rightarrow> string option" where
  \<comment> \<open>digits is non-empty: prefix + and return as-is\<close>
  "step4 digits = (if digits \<noteq> [] then Some (CHR ''+'' # digits) else None)"

fun first_applicable :: "(string \<Rightarrow> string option) list \<Rightarrow> string \<Rightarrow> string" where
  \<comment> \<open>the steps in order; step 5, when none applies, is the empty string\<close>
  "first_applicable [] digits = []"
| "first_applicable (step # steps) digits =
     (case step digits of Some r \<Rightarrow> r | None \<Rightarrow> first_applicable steps digits)"

definition normalize_spec :: "string \<Rightarrow> string" where
  "normalize_spec raw = first_applicable [step1, step2, step3, step4] (strip_non_digits raw)"

section \<open>The transcript formatter\<close>

text \<open>
  \<open>JSON.parse\<close> belongs to the platform. It is a parameter \<open>parse\<close> of the formatter, which
  gives \<open>None\<close> where \<open>JSON.parse\<close> throws its \<open>SyntaxError\<close>; every property below holds for
  every such function.
\<close>

definition entry :: "jsval \<Rightarrow> jsval \<Rightarrow> jsval" where
  \<comment> \<open>the object literal \<open>{ speaker: ..., message: ... }\<close>\<close>
  "entry speaker message = JObj [(''speaker'', speaker), (''message'', message)]"

definition speakers :: "string list" where
  "speakers = [''Agent'', ''Driver'', ''Assistant'', ''User'', ''Human'']"

definition same_ignoring_case :: "string \<Rightarrow> string \<Rightarrow> bool" where
  \<comment> \<open>the comparison of the flag \<open>i\<close>\<close>
  "same_ignoring_case a b = (map toUpperCase_char a = map toUpperCase_char b)"

definition match_message :: "string \<Rightarrow> string option" where
  \<comment> \<open>\<open>\s*(.+)\<close> at the start of the text: the group's capture. The greedy \<open>\s*\<close> takes all
      the leading white space and \<open>.+\<close> runs up to the next line terminator; when the text is
      white space only, \<open>\s*\<close> gives characters back until \<open>.+\<close> finds one it matches.\<close>
  "match_message r =
     (let rest = dropWhile is_space r in
      if rest \<noteq> [] then Some (takeWhile (\<lambda>c. \<not> is_line_terminator c) rest)
      else (case rev (filter (\<lambda>c. \<not> is_line_terminator c) r) of
              [] \<Rightarrow> None
            | c # _ \<Rightarrow> Some [c]))"

definition match_label :: "string \<Rightarrow> string \<Rightarrow> (string \<times> string) option" where
  \<comment> \<open>one alternative of the pattern: the label, the colon, the message\<close>
  "match_label l line =
     (if same_ignoring_case (take (length l) line) l then
        (case drop (length l) line of
           [] \<Rightarrow> None
         | c # r \<Rightarrow>
            (if c = CHR '':'' then
               (case match_message r of
                  None \<Rightarrow> None
                | Some m \<Rightarrow> Some (take (length l) line, m))
             else None))
      else None)"

fun match_speaker :: "string list \<Rightarrow> string \<Rightarrow> (string \<times> string) option" where
  \<comment> \<open>\<open>line.match(/^(Agent|Driver|Assistant|User|Human):\s*(.+)/i)\<close>: the two captures of
      the first alternative that matches\<close>
  "match_speaker [] line = None"
| "match_speaker (l # ls) line =
     (case match_label l line of
        Some captures \<Rightarrow> Some captures
      | None \<Rightarrow> match_speaker ls line)"

definition line_entries :: "string \<Rightarrow> jsval list" where
  \<comment> \<open>the body of the \<open>forEach\<close>: what one line pushes\<close>
  "line_entries l =
     (let line = trim l in
      if line \<noteq> [] then
        (case match_speaker speakers line of
           Some (speaker, message) \<Rightarrow> [entry (JStr speaker) (JStr message)]
         | None \<Rightarrow> [entry (JStr ''System'') (JStr line)])
      else [])"

definition plain_text_entries :: "string \<Rightarrow> jsval list" where
  "plain_text_entries rawTranscript =
     (let transcript = concat (map line_entries (split rawTranscript CHR 0x0A)) in
      if length transcript > 0 then transcript
      else [entry (JStr ''System'') (JStr rawTranscript)])"

definition formatTranscript_try :: "(string \<Rightarrow> jsval option) \<Rightarrow> jsval \<Rightarrow> js_error + jsval list" where
  \<comment> \<open>the \<open>try\<close> block; a truthy value that is not a string has no \<open>startsWith\<close> to call\<close>
  "formatTranscript_try parse rawTranscript =
     (case rawTranscript of
        JStr s \<Rightarrow>
          (if startsWith s ''['' \<or> startsWith s ''{'' then
             (case parse s of
                None \<Rightarrow> Inl SyntaxError
              | Some (JArr parsed) \<Rightarrow> Inr parsed
              | Some _ \<Rightarrow> Inr (plain_text_entries s))
           else Inr (plain_text_entries s))
      | _ \<Rightarrow> Inl TypeError)"

definition formatTranscript :: "(string \<Rightarrow> jsval option) \<Rightarrow> jsval \<Rightarrow> jsval list" where
  "formatTranscript parse rawTranscript =
     (if \<not> truthy rawTranscript then
        [entry (JStr ''System'')
           (JStr ''Transcript not available yet. It may take a few minutes to process.'')]
      else
        (case formatTranscript_try parse rawTranscript of
           Inr transcript \<Rightarrow> transcript
         | Inl error \<Rightarrow>
             [entry (JStr ''System'')
                (js_or rawTranscript (JStr ''Transcript processing error''))]))"

section \<open>Key information\<close>

record driver_info =
  name :: string
  phone :: string
  loadNumber :: string

fun capitalize_words :: "bool \<Rightarrow> string \<Rightarrow> string" where
  \<comment> \<open>\<open>replace(/\b\w/g, l => l.toUpperCase())\<close>; the flag says whether the character before is a
      word character\<close>
  "capitalize_words after_word [] = []"
| "capitalize_words after_word (c # cs) =
     (if is_word_char c \<and> \<not> after_word then toUpperCase_char c else c)
       # capitalize_words (is_word_char c) cs"

definition title_key :: "string \<Rightarrow> string" where
  \<comment> \<open>\<open>key.replace(/_/g, ' ').replace(/\b\w/g, l => l.toUpperCase())\<close>\<close>
  "title_key key =
     capitalize_words False (map (\<lambda>c. if c = CHR ''_'' then CHR '' '' else c) key)"

definition is_primitive :: "jsval \<Rightarrow> bool" where
  \<comment> \<open>\<open>typeof v === 'string' || typeof v === 'number'\<close>\<close>
  "is_primitive v = (case v of JStr _ \<Rightarrow> True | JNum _ \<Rightarrow> True | _ \<Rightarrow> False)"

definition join_key_points :: "jsval \<Rightarrow> js_error + jsval" where
  \<comment> \<open>\<open>key_points?.join(', ')\<close>: only an array has a \<open>join\<close> to call\<close>
  "join_key_points key_points =
     (case key_points of
        JUndefined \<Rightarrow> Inr JUndefined
      | JNull \<Rightarrow> Inr JUndefined
      | JArr xs \<Rightarrow> Inr (JStr (array_join xs '', ''))
      | _ \<Rightarrow> Inl TypeError)"

definition from_processed :: "jsval \<Rightarrow> js_error + (string \<times> jsval) list" where
  \<comment> \<open>the three assignments under \<open>if (processedTranscript)\<close>, on the empty object\<close>
  "from_processed processedTranscript =
     (case get_prop processedTranscript ''summary'' of
        Inl e \<Rightarrow> Inl e
      | Inr summary \<Rightarrow>
     (case get_prop processedTranscript ''sentiment'' of
        Inl e \<Rightarrow> Inl e
      | Inr sentiment \<Rightarrow>
     (case get_prop processedTranscript ''key_points'' of
        Inl e \<Rightarrow> Inl e
      | Inr key_points \<Rightarrow>
     (case join_key_points key_points of
        Inl e \<Rightarrow> Inl e
      | Inr joined \<Rightarrow>
          Inr (set_prop ''Key Points'' (js_or joined (JStr ''None''))
              (set_prop ''Sentiment'' (js_or sentiment (JStr ''Unknown''))
              (set_prop ''Call Summary'' (js_or summary (JStr ''No summary available'')) [])))))))"

fun from_analysis :: "(string \<times> jsval) list \<Rightarrow> (string \<times> jsval) list \<Rightarrow> (string \<times> jsval) list" where
  \<comment> \<open>the \<open>forEach\<close> over the keys of the analysis\<close>
  "from_analysis [] keyInfo = keyInfo"
| "from_analysis ((key, v) # entries) keyInfo =
     from_analysis entries (if is_primitive v then set_prop (title_key key) v keyInfo else keyInfo)"

definition extractKeyInformation ::
  "driver_info \<Rightarrow> jsval \<Rightarrow> jsval \<Rightarrow> js_error + (string \<times> jsval) list" where
  "extractKeyInformation driverInfo callAnalysis processedTranscript =
     (case (if truthy processedTranscript then from_processed processedTranscript else Inr []) of
        Inl e \<Rightarrow> Inl e
      | Inr keyInfo1 \<Rightarrow>
          (let keyInfo2 =
                 (if truthy callAnalysis then from_analysis (own_entries callAnalysis) keyInfo1
                  else keyInfo1);
               keyInfo =
                 set_prop ''Phone Number'' (JStr (phone driverInfo))
                   (set_prop ''Load Number'' (JStr (loadNumber driverInfo))
                     (set_prop ''Driver Name'' (JStr (name driverInfo)) keyInfo2))
           in Inr (if length keyInfo > 0 then keyInfo
                   else [(''Driver Name'', JStr (name driverInfo)),
                         (''Load Number'', JStr (loadNumber driverInfo)),
                         (''Call Status'', JStr ''Completed'')])))"

text \<open>
  The assignments to the key information object in the order the function makes them: those
  from the processed transcript, those from the analysis, those from the driver information.
\<close>

definition processed_assignments :: "jsval \<Rightarrow> (string \<times> jsval) list" where
  "processed_assignments processedTranscript =
     (if truthy processedTranscript then
        (case from_processed processedTranscript of Inr keyInfo \<Rightarrow> keyInfo | Inl e \<Rightarrow> [])
      else [])"

definition analysis_assignments :: "jsval \<Rightarrow> (string \<times> jsval) list" where
  "analysis_assignments callAnalysis =
     (if truthy callAnalysis then
        map (\<lambda>(key, v). (title_key key, v))
          (filter (\<lambda>(key, v). is_primitive v) (own_entries callAnalysis))
      else [])"

definition driver_assignments :: "driver_info \<Rightarrow> (string \<times> jsval) list" where
  "driver_assignments di =
     [(''Driver Name'', JStr (name di)),
      (''Load Number'', JStr (loadNumber di)),
      (''Phone Number'', JStr (phone di))]"

section \<open>The backend's answers\<close>

text \<open>
  A request either is rejected (\<open>None\<close>) or gives a response; the body of a response either
  is a JSON document or makes \<open>response.json()\<close> reject (\<open>None\<close>). An operation of the
  component is given the answers to the requests it may send, and records each request it
  does send. Each operation runs to its end before the next event of the session: what is
  modelled are the schedules in which a handler's requests are answered before another timer
  or click is served.
\<close>

record http_response =
  ok :: bool
  body :: "jsval option"

type_synonym fetch_result = "http_response option"

record answers =
  statusResp :: fetch_result
  detailResp :: fetch_result
  transcriptResp :: fetch_result

record agent_config =
  prompt :: string
  logic :: string

datatype request =
    PostStart driver_info agent_config   \<comment> \<open>\<open>POST /api/call/start\<close>\<close>
  | GetStatus jsval                      \<comment> \<open>\<open>GET /api/call/{id}/status\<close>\<close>
  | GetCall jsval                        \<comment> \<open>\<open>GET /api/calls/{id}\<close>\<close>
  | GetTranscript jsval                  \<comment> \<open>\<open>GET /api/calls/{id}/transcript\<close>\<close>
  | PostSync jsval                       \<comment> \<open>\<open>POST /api/call/{id}/sync\<close>\<close>

datatype alert =
    AlertFillDriverInfo
  | AlertConfigureAgent
  | AlertCallInitiated jsval jsval       \<comment> \<open>call id and access token\<close>
  | AlertCallFailed js_error
  | AlertTakingLonger
  | AlertUnableToGetStatus
  | AlertEnterCallId
  | AlertFetched
  | AlertStillActive jsval               \<comment> \<open>the status reported\<close>
  | AlertFailedToCheck jsval             \<comment> \<open>the call id\<close>
  | AlertEnterSyncId
  | AlertSynced jsval
  | AlertSyncFailed js_error

definition response_json :: "fetch_result \<Rightarrow> js_error + jsval" where
  \<comment> \<open>\<open>await (await fetch(...)).json()\<close>\<close>
  "response_json r =
     (case r of
        None \<Rightarrow> Inl NetworkError
      | Some response \<Rightarrow> (case body response of None \<Rightarrow> Inl SyntaxError | Some v \<Rightarrow> Inr v))"

definition status_of :: "fetch_result \<Rightarrow> js_error + jsval" where
  \<comment> \<open>\<open>statusData.status\<close> of the answer to a status request\<close>
  "status_of r =
     (case response_json r of Inl e \<Rightarrow> Inl e | Inr statusData \<Rightarrow> get_prop statusData ''status'')"

definition is_terminal :: "jsval \<Rightarrow> bool" where
  \<comment> \<open>\<open>status === 'completed' || status === 'ended'\<close>\<close>
  "is_terminal st = (st = JStr ''completed'' \<or> st = JStr ''ended'')"

section \<open>Call results\<close>

text \<open>
  Of a result record the fields \<open>duration\<close> and \<open>timestamp\<close>, which are computed from clock
  values, and the copies of the raw documents are left out; computing them raises nothing.
\<close>

record call_result =
  callId :: jsval
  status :: jsval
  keyInformation :: "(string \<times> jsval) list"
  transcript :: "jsval list"

definition degraded_result :: "jsval \<Rightarrow> call_result" where
  \<comment> \<open>the result of the \<open>catch\<close> block of \<open>fetchCallResults\<close>\<close>
  "degraded_result cid =
     \<lparr> callId = cid, status = JStr ''completed'',
       keyInformation = [(''Call Status'', JStr ''Completed''),
                         (''Error'', JStr ''Unable to fetch detailed results'')],
       transcript = [entry (JStr ''System'') (JStr ''Transcript not available'')] \<rparr>"

definition processed_transcript :: "fetch_result \<Rightarrow> jsval" where
  \<comment> \<open>the inner \<open>try\<close>: the transcript document of an \<open>ok\<close> response, \<open>null\<close> otherwise\<close>
  "processed_transcript r =
     (case r of
        None \<Rightarrow> JNull
      | Some response \<Rightarrow>
          (if ok response then (case body response of None \<Rightarrow> JNull | Some v \<Rightarrow> v)
           else JNull))"

definition formattedResults ::
  "(string \<Rightarrow> jsval option) \<Rightarrow> driver_info \<Rightarrow> jsval \<Rightarrow> jsval \<Rightarrow> jsval \<Rightarrow> js_error + call_result" where
  "formattedResults parse di cid callData processedTranscript =
     (case get_prop callData ''status'' of
        Inl e \<Rightarrow> Inl e
      | Inr st \<Rightarrow>
     (case get_prop callData ''call_analysis'' of
        Inl e \<Rightarrow> Inl e
      | Inr call_analysis \<Rightarrow>
     (case extractKeyInformation di call_analysis processedTranscript of
        Inl e \<Rightarrow> Inl e
      | Inr keyInfo \<Rightarrow>
     (case get_prop callData ''raw_transcript'' of
        Inl e \<Rightarrow> Inl e
      | Inr raw_transcript \<Rightarrow>
          Inr \<lparr> callId = cid, status = js_or st (JStr ''completed''),
                keyInformation = keyInfo,
                transcript = formatTranscript parse raw_transcript \<rparr>))))"

definition fetchCallResults ::
  "(string \<Rightarrow> jsval option) \<Rightarrow> driver_info \<Rightarrow> jsval \<Rightarrow> answers \<Rightarrow> request list \<times> call_result" where
  \<comment> \<open>the requests sent, and the argument of \<open>setCallResults\<close>\<close>
  "fetchCallResults parse di cid a =
     (case response_json (detailResp a) of
        Inl e \<Rightarrow> ([GetCall cid], degraded_result cid)
      | Inr callData \<Rightarrow>
          ([GetCall cid, GetTranscript cid],
           (case formattedResults parse di cid callData (processed_transcript (transcriptResp a)) of
              Inl e \<Rightarrow> degraded_result cid
            | Inr results \<Rightarrow> results)))"

section \<open>The session\<close>

text \<open>
  The state of the component, the requests and alerts it has issued, and its timers: the
  pending \<open>setTimeout\<close> callbacks and the intervals of the poll loops. A callback works with
  the driver information of the render that created it, which a timer therefore carries.
\<close>

record poll_loop =
  loop_callId :: jsval
  loop_driverInfo :: driver_info
  attempts :: nat
  cleared :: bool

record session =
  driverInfo :: driver_info
  isCallInProgress :: bool
  currentCallId :: jsval
  isFetchingResults :: bool
  manualCallId :: string
  isSyncing :: bool
  callResults :: "call_result option"
  requests :: "request list"
  alerts :: "alert list"
  timeouts :: "(jsval \<times> driver_info) list"
  intervals :: "poll_loop list"

definition initial_session :: session where
  "initial_session =
     \<lparr> driverInfo = \<lparr> name = [], phone = [], loadNumber = [] \<rparr>,
       isCallInProgress = False, currentCallId = JNull, isFetchingResults = False,
       manualCallId = [], isSyncing = False, callResults = None,
       requests = [], alerts = [], timeouts = [], intervals = [] \<rparr>"

definition maxAttempts :: nat where
  "maxAttempts = 60"

definition send :: "request list \<Rightarrow> session \<Rightarrow> session" where
  "send rs s = s\<lparr> requests := requests s @ rs \<rparr>"

definition show_alert :: "alert \<Rightarrow> session \<Rightarrow> session" where
  "show_alert a s = s\<lparr> alerts := alerts s @ [a] \<rparr>"

definition run_fetchCallResults ::
  "(string \<Rightarrow> jsval option) \<Rightarrow> driver_info \<Rightarrow> jsval \<Rightarrow> answers \<Rightarrow> session \<Rightarrow> session" where
  "run_fetchCallResults parse di cid a s =
     (case fetchCallResults parse di cid a of
        (rs, results) \<Rightarrow> (send rs s)\<lparr> callResults := Some results \<rparr>)"


definition setManualCallId :: "string \<Rightarrow> session \<Rightarrow> session" where
  "setManualCallId v s = s\<lparr> manualCallId := v \<rparr>"

definition basicResults :: "driver_info \<Rightarrow> jsval \<Rightarrow> jsval \<Rightarrow> jsval \<Rightarrow> call_result" where
  "basicResults di call_id access_token agent_id =
     \<lparr> callId = call_id, status = JStr ''web_call_ready'',
       keyInformation = [(''Call Type'', JStr ''Web Call''),
                         (''Call Status'', JStr ''Ready to Connect''),
                         (''Driver Name'', JStr (name di)),
                         (''Load Number'', JStr (loadNumber di)),
                         (''Access Token'', access_token),
                         (''Agent ID'', agent_id)],
       transcript = [entry (JStr ''System'')
         (JStr ''Web call created successfully. Use the access token to connect to the call interface.'')] \<rparr>"

definition start_succeeded :: "driver_info \<Rightarrow> jsval \<Rightarrow> session \<Rightarrow> js_error + session" where
  \<comment> \<open>the branch \<open>if (result.success)\<close>\<close>
  "start_succeeded di result s =
     (case get_prop result ''call_id'' of
        Inl e \<Rightarrow> Inl e
      | Inr call_id \<Rightarrow>
     (case get_prop result ''access_token'' of
        Inl e \<Rightarrow> Inl e
      | Inr access_token \<Rightarrow>
     (case get_prop result ''agent_id'' of
        Inl e \<Rightarrow> Inl e
      | Inr agent_id \<Rightarrow>
          Inr ((show_alert (AlertCallInitiated call_id access_token) (s\<lparr> currentCallId := call_id \<rparr>))
                 \<lparr> callResults := Some (basicResults di call_id access_token agent_id),
                   timeouts := timeouts s @ [(call_id, di)] \<rparr>))))"

definition start_try :: "driver_info \<Rightarrow> fetch_result \<Rightarrow> session \<Rightarrow> js_error + session" where
  \<comment> \<open>the \<open>try\<close> block of \<open>startTestCall\<close>, after the request is sent\<close>
  "start_try di startResp s =
     (case response_json startResp of
        Inl e \<Rightarrow> Inl e
      | Inr result \<Rightarrow>
     (case get_prop result ''success'' of
        Inl e \<Rightarrow> Inl e
      | Inr success \<Rightarrow>
          (if truthy success then start_succeeded di result s
           else (case get_prop result ''error'' of
                   Inl e \<Rightarrow> Inl e
                 | Inr err \<Rightarrow> Inl (Error (js_or err (JStr ''Failed to start call'')))))))"

definition startTestCall :: "agent_config \<Rightarrow> fetch_result \<Rightarrow> session \<Rightarrow> session" where
  "startTestCall agentConfig startResp s =
     (let di = driverInfo s in
      if name di = [] \<or> phone di = [] \<or> loadNumber di = [] then show_alert AlertFillDriverInfo s
      else if prompt agentConfig = [] \<or> logic agentConfig = [] then show_alert AlertConfigureAgent s
      else
        (let s1 = send [PostStart di agentConfig]
                    (s\<lparr> isCallInProgress := True, callResults := None, currentCallId := JNull \<rparr>);
             s2 = (case start_try di startResp s1 of
                     Inr s' \<Rightarrow> s'
                   | Inl e \<Rightarrow> show_alert (AlertCallFailed e) s1)
         in s2\<lparr> isCallInProgress := False \<rparr>))"

definition pollForCallCompletion :: "jsval \<Rightarrow> driver_info \<Rightarrow> session \<Rightarrow> session" where
  \<comment> \<open>\<open>setInterval\<close>: a new loop with \<open>attempts = 0\<close>\<close>
  "pollForCallCompletion cid di s =
     s\<lparr> intervals := intervals s @
          [\<lparr> loop_callId = cid, loop_driverInfo = di, attempts = 0, cleared = False \<rparr>] \<rparr>"


definition poll_tick ::
  "(string \<Rightarrow> jsval option) \<Rightarrow> answers \<Rightarrow> poll_loop \<Rightarrow> session \<Rightarrow> poll_loop \<times> session" where
  \<comment> \<open>the callback of the interval\<close>
  "poll_tick parse a l s =
     (let l1 = l\<lparr> attempts := attempts l + 1 \<rparr>;
          s1 = send [GetStatus (loop_callId l)] s
      in case status_of (statusResp a) of
           Inr st \<Rightarrow>
             (if is_terminal st then
                (l1\<lparr> cleared := True \<rparr>,
                 run_fetchCallResults parse (loop_driverInfo l) (loop_callId l) a s1)
              else if attempts l1 \<ge> maxAttempts then
                (l1\<lparr> cleared := True \<rparr>,
                 run_fetchCallResults parse (loop_driverInfo l) (loop_callId l) a
                   (show_alert AlertTakingLonger s1))
              else (l1, s1))
         | Inl e \<Rightarrow>
             (if attempts l1 \<ge> maxAttempts then
                (l1\<lparr> cleared := True \<rparr>, show_alert AlertUnableToGetStatus s1)
              else (l1, s1)))"

definition interval_fires ::
  "(string \<Rightarrow> jsval option) \<Rightarrow> nat \<Rightarrow> answers \<Rightarrow> session \<Rightarrow> session" where
  \<comment> \<open>five seconds have passed for the interval number \<open>i\<close>: its callback runs unless the
      interval has been cleared\<close>
  "interval_fires parse i a s =
     (if i < length (intervals s) \<and> \<not> cleared (intervals s ! i) then
        (case poll_tick parse a (intervals s ! i) s of
           (l', s') \<Rightarrow> s'\<lparr> intervals := (intervals s')[i := l'] \<rparr>)
      else s)"

fun periods ::
  "(string \<Rightarrow> jsval option) \<Rightarrow> nat \<Rightarrow> (nat \<Rightarrow> answers) \<Rightarrow> nat \<Rightarrow> session \<Rightarrow> session" where
  \<comment> \<open>the session after \<open>n\<close> periods of the interval number \<open>i\<close>, where \<open>backend k\<close> are the
      answers in the period \<open>k\<close>, counted from 0\<close>
  "periods parse i backend 0 s = s"
| "periods parse i backend (Suc n) s =
     interval_fires parse i (backend n) (periods parse i backend n s)"

definition manual_try ::
  "(string \<Rightarrow> jsval option) \<Rightarrow> jsval \<Rightarrow> answers \<Rightarrow> session \<Rightarrow> js_error + session" where
  \<comment> \<open>the \<open>try\<close> block of \<open>manualFetchResults\<close>, after the status request is sent\<close>
  "manual_try parse callIdToFetch a s =
     (case status_of (statusResp a) of
        Inl e \<Rightarrow> Inl e
      | Inr st \<Rightarrow>
          (if is_terminal st then
             (let s1 = show_alert AlertFetched
                         (run_fetchCallResults parse (driverInfo s) callIdToFetch a s)
              in Inr (if trim (manualCallId s) \<noteq> [] then s1\<lparr> currentCallId := callIdToFetch \<rparr>
                      else s1))
           else Inr (show_alert (AlertStillActive st) s)))"

definition callIdToFetch :: "session \<Rightarrow> jsval" where
  \<comment> \<open>\<open>manualCallId.trim() || currentCallId\<close>\<close>
  "callIdToFetch s = js_or (JStr (trim (manualCallId s))) (currentCallId s)"

definition manualFetchResults ::
  "(string \<Rightarrow> jsval option) \<Rightarrow> answers \<Rightarrow> session \<Rightarrow> session" where
  "manualFetchResults parse a s =
     (if \<not> truthy (callIdToFetch s) then show_alert AlertEnterCallId s
      else
        (let s1 = send [GetStatus (callIdToFetch s)] (s\<lparr> isFetchingResults := True \<rparr>);
             s2 = (case manual_try parse (callIdToFetch s) a s1 of
                     Inr s' \<Rightarrow> s'
                   | Inl e \<Rightarrow> show_alert (AlertFailedToCheck (callIdToFetch s)) s1)
         in s2\<lparr> isFetchingResults := False \<rparr>))"




definition reports_terminal :: "answers \<Rightarrow> bool" where
  \<comment> \<open>the status request is answered with the status \<open>completed\<close> or \<open>ended\<close>\<close>
  "reports_terminal a =
     (case status_of (statusResp a) of Inr st \<Rightarrow> is_terminal st | Inl e \<Rightarrow> False)"

definition status_fails :: "answers \<Rightarrow> bool" where
  \<comment> \<open>the status request is rejected, or its answer has no status to read\<close>
  "status_fails a = (case status_of (statusResp a) of Inr st \<Rightarrow> False | Inl e \<Rightarrow> True)"

definition poll_session ::
  "(string \<Rightarrow> jsval option) \<Rightarrow> (nat \<Rightarrow> answers) \<Rightarrow> jsval \<Rightarrow> driver_info \<Rightarrow> session \<Rightarrow> nat \<Rightarrow> session" where
  \<comment> \<open>the session \<open>n\<close> periods after \<open>pollForCallCompletion(callId)\<close> was called in \<open>s\<close>, as the
      timer of the new loop alone changes it\<close>
  "poll_session parse backend cid di s n =
     periods parse (length (intervals s)) backend n (pollForCallCompletion cid di s)"

definition started_call_ids :: "session \<Rightarrow> jsval list" where
  \<comment> \<open>the ids of the calls started so far, the oldest first: a start that succeeds shows the
      alert that carries the id of the call, and nothing else shows it\<close>
  "started_call_ids s =
     concat (map (\<lambda>x. case x of AlertCallInitiated cid token \<Rightarrow> [cid] | _ \<Rightarrow> []) (alerts s))"

section \<open>A reader for plain JSON texts\<close>

text \<open>
  To evaluate the formatter on concrete texts, \<open>parse\<close> is instantiated by \<open>read_json\<close>, which
  reads the JSON texts built from arrays, objects, strings without escapes, integers and the
  three literals, with the members of an object in the order of the text, and rejects every
  other text.
\<close>

definition skip_ws :: "string \<Rightarrow> string" where
  "skip_ws s = dropWhile (\<lambda>c. c \<in> set [CHR 0x20, CHR 0x09, CHR 0x0A, CHR 0x0D]) s"

definition plain_char :: "char \<Rightarrow> bool" where
  \<comment> \<open>a character that stands for itself inside a JSON string\<close>
  "plain_char c = (c \<noteq> CHR 0x22 \<and> c \<noteq> CHR 0x5C \<and> 32 \<le> (of_char c :: nat))"

definition read_string :: "string \<Rightarrow> (string \<times> string) option" where
  \<comment> \<open>the text after an opening quote: the string, and the text after its closing quote\<close>
  "read_string s =
     (case dropWhile plain_char s of
        [] \<Rightarrow> None
      | c # r \<Rightarrow> (if c = CHR 0x22 then Some (takeWhile plain_char s, r) else None))"

definition digits_value :: "string \<Rightarrow> nat" where
  "digits_value ds = foldl (\<lambda>n c. 10 * n + (of_char c - 48)) 0 ds"

definition read_number :: "string \<Rightarrow> (jsval \<times> string) option" where
  "read_number s =
     (let neg = (take 1 s = ''-'');
          t = (if neg then drop 1 s else s);
          ds = takeWhile is_digit t;
          r = dropWhile is_digit t
      in if ds = [] \<or> (length ds > 1 \<and> hd ds = CHR ''0'') then None
         else if r \<noteq> [] \<and> hd r \<in> set ''.eE'' then None
         else Some (JNum (if neg then - int (digits_value ds) else int (digits_value ds)), r))"

definition read_literal :: "string \<Rightarrow> (jsval \<times> string) option" where
  "read_literal s =
     (if startsWith s ''null'' then Some (JNull, drop 4 s)
      else if startsWith s ''true'' then Some (JBool True, drop 4 s)
      else if startsWith s ''false'' then Some (JBool False, drop 5 s)
      else read_number s)"

fun read_value :: "nat \<Rightarrow> string \<Rightarrow> (jsval \<times> string) option"
  and read_elements :: "nat \<Rightarrow> jsval list \<Rightarrow> string \<Rightarrow> (jsval list \<times> string) option"
  and read_members ::
    "nat \<Rightarrow> (string \<times> jsval) list \<Rightarrow> string \<Rightarrow> ((string \<times> jsval) list \<times> string) option"
where
  "read_value 0 s = None"
| "read_value (Suc fuel) s =
     (case skip_ws s of
        [] \<Rightarrow> None
      | c # r \<Rightarrow>
          (if c = CHR ''['' then
             (case skip_ws r of
                [] \<Rightarrow> None
              | d # r' \<Rightarrow>
                  (if d = CHR '']'' then Some (JArr [], r')
                   else (case read_elements fuel [] r of
                           None \<Rightarrow> None
                         | Some (xs, r'') \<Rightarrow> Some (JArr xs, r''))))
           else if c = CHR ''{'' then
             (case skip_ws r of
                [] \<Rightarrow> None
              | d # r' \<Rightarrow>
                  (if d = CHR ''}'' then Some (JObj [], r')
                   else (case read_members fuel [] r of
                           None \<Rightarrow> None
                         | Some (kvs, r'') \<Rightarrow> Some (JObj kvs, r''))))
           else if c = CHR 0x22 then
             (case read_string r of None \<Rightarrow> None | Some (str, r') \<Rightarrow> Some (JStr str, r'))
           else read_literal (c # r)))"
| "read_elements 0 acc s = None"
| "read_elements (Suc fuel) acc s =
     (case read_value fuel s of
        None \<Rightarrow> None
      | Some (v, r) \<Rightarrow>
          (case skip_ws r of
             [] \<Rightarrow> None
           | c # r' \<Rightarrow>
               (if c = CHR '','' then read_elements fuel (acc @ [v]) r'
                else if c = CHR '']'' then Some (acc @ [v], r')
                else None)))"
| "read_members 0 acc s = None"
| "read_members (Suc fuel) acc s =
     (case skip_ws s of
        [] \<Rightarrow> None
      | q # r \<Rightarrow>
          (if q = CHR 0x22 then
             (case read_string r of
                None \<Rightarrow> None
              | Some (key, r1) \<Rightarrow>
                  (case skip_ws r1 of
                     [] \<Rightarrow> None
                   | c # r2 \<Rightarrow>
                       (if c = CHR '':'' then
                          (case read_value fuel r2 of
                             None \<Rightarrow> None
                           | Some (v, r3) \<Rightarrow>
                               (case skip_ws r3 of
                                  [] \<Rightarrow> None
                                | d # r4 \<Rightarrow>
                                    (if d = CHR '','' then read_members fuel (set_prop key v acc) r4
                                     else if d = CHR ''}'' then Some (set_prop key v acc, r4)
                                     else None)))
                        else None)))
           else None))"

definition read_json :: "string \<Rightarrow> jsval option" where
  \<comment> \<open>one value, with nothing but white space after it; a text of \<open>n\<close> characters needs no
      more than \<open>n\<close> nested calls\<close>
  "read_json s =
     (case read_value (Suc (length s)) s of
        None \<Rightarrow> None
      | Some (v, r) \<Rightarrow> (if skip_ws r = [] then Some v else None))"

section \<open>Sample inputs\<close>

definition sample_driver :: driver_info where
  "sample_driver = \<lparr> name = ''Ali'', phone = ''+923001234567'', loadNumber = ''L7'' \<rparr>"

definition sample_config :: agent_config where
  "sample_config = \<lparr> prompt = ''Greet the driver'', logic = ''Ask for the load status'' \<rparr>"

definition json_response :: "jsval \<Rightarrow> fetch_result" where
  "json_response v = Some \<lparr> ok = True, body = Some v \<rparr>"

definition no_answers :: answers where
  \<comment> \<open>every request is rejected\<close>
  "no_answers = \<lparr> statusResp = None, detailResp = None, transcriptResp = None \<rparr>"

definition status_answers :: "string \<Rightarrow> answers" where
  \<comment> \<open>the call has the given status, its detail document has nothing else, and the
      transcript request is rejected\<close>
  "status_answers st =
     \<lparr> statusResp = json_response (JObj [(''status'', JStr st)]),
       detailResp = json_response (JObj [(''status'', JStr st)]),
       transcriptResp = None \<rparr>"

definition started_response :: "string \<Rightarrow> fetch_result" where
  \<comment> \<open>the backend's answer to a successful start of the call with the given id\<close>
  "started_response cid =
     json_response (JObj [(''success'', JBool True), (''call_id'', JStr cid),
                          (''access_token'', JStr ''token''), (''agent_id'', JStr ''agent'')])"

definition unreachable_backend :: "nat \<Rightarrow> answers" where
  "unreachable_backend k = no_answers"

definition always_active :: "nat \<Rightarrow> answers" where
  "always_active k = status_answers ''active''"

definition completed_on_tick_60 :: "nat \<Rightarrow> answers" where
  \<comment> \<open>\<open>active\<close> in the first 59 periods, \<open>completed\<close> from the 60th on\<close>
  "completed_on_tick_60 k = (if k < 59 then status_answers ''active'' else status_answers ''completed'')"

definition ready_session :: session where
  \<comment> \<open>the driver's fields are filled in\<close>
  "ready_session = initial_session\<lparr> driverInfo := sample_driver \<rparr>"

definition call_started :: session where
  \<comment> \<open>a first call has been started\<close>
  "call_started = startTestCall sample_config (started_response ''call_1'') ready_session"



definition fetched_by_hand :: session where
  \<comment> \<open>after the first call was started, the results of another call, which has ended, were
      fetched under its id, and the manual field was emptied\<close>
  "fetched_by_hand =
     setManualCallId []
       (manualFetchResults read_json (status_answers ''ended'')
          (setManualCallId ''call_9'' call_started))"

section \<open>Properties of the phone formatter\<close>

lemma startsWith_prefix: "startsWith s p = prefix p s"
  by (auto simp: startsWith_def prefix_def) (metis append_take_drop_id)

text \<open>
  Claim C5. For every input string, \<open>formatPhoneNumber\<close> computes what the five steps of the
  specification compute: the digits prefixed with \<open>+\<close> when they start with 92; the digits
  without their leading 0 prefixed with \<open>+92\<close> when they start with 03 and are eleven; the
  digits prefixed with \<open>+92\<close> when they are ten and start with 3; the digits prefixed with
  \<open>+\<close> when there are any; the empty string otherwise. The five examples of the
  specification are instances.
\<close>

theorem formatPhoneNumber_refines_spec:
  "formatPhoneNumber s = normalize_spec s
   \<and> formatPhoneNumber ''03001234567'' = ''+923001234567''
   \<and> formatPhoneNumber ''923001234567'' = ''+923001234567''
   \<and> formatPhoneNumber ''3001234567'' = ''+923001234567''
   \<and> formatPhoneNumber '''' = ''''
   \<and> formatPhoneNumber ''12345'' = ''+12345''"
proof -
  have gen: "formatPhoneNumber s = normalize_spec s"
    by (simp add: formatPhoneNumber_def normalize_spec_def strip_non_digits_def Let_def
        startsWith_prefix step1_def step2_def step3_def step4_def drop_Suc)
  have e1: "formatPhoneNumber ''03001234567'' = ''+923001234567''"
    by (simp add: formatPhoneNumber_def is_digit_def startsWith_def)
  have e2: "formatPhoneNumber ''923001234567'' = ''+923001234567''"
    by (simp add: formatPhoneNumber_def is_digit_def startsWith_def)
  have e3: "formatPhoneNumber ''3001234567'' = ''+923001234567''"
    by (simp add: formatPhoneNumber_def is_digit_def startsWith_def)
  have e4: "formatPhoneNumber '''' = ''''"
    by (simp add: formatPhoneNumber_def is_digit_def startsWith_def)
  have e5: "formatPhoneNumber ''12345'' = ''+12345''"
    by (simp add: formatPhoneNumber_def is_digit_def startsWith_def)
  from gen e1 e2 e3 e4 e5 show ?thesis by blast
qed

theorem formatPhoneNumber_refines_spec_witness:
  "formatPhoneNumber ''(0300) 123-4567'' = normalize_spec ''(0300) 123-4567''"
  by (rule formatPhoneNumber_refines_spec [of "''(0300) 123-4567''", THEN conjunct1])

text \<open>
  Claim C10. Formatting is idempotent: a formatted number is formatted to itself.
\<close>

theorem formatPhoneNumber_idempotent:
  "formatPhoneNumber (formatPhoneNumber s) = formatPhoneNumber s"
proof -
  define d where "d = filter is_digit s"
  have dd: "filter is_digit d = d"
    by (simp add: d_def)
  have p: "filter is_digit (CHR ''+'' # d) = d"
    using dd by (simp add: is_digit_def)
  have q: "filter is_digit (''+92'' @ d) = ''92'' @ d"
    using dd by (simp add: is_digit_def)
  have r: "filter is_digit (''+92'' @ drop 1 d) = ''92'' @ drop 1 d"
    using dd by (simp add: is_digit_def drop_Suc) (metis filter_id_conv list.set_sel(2) tl_Nil)
  show ?thesis
    unfolding formatPhoneNumber_def Let_def d_def[symmetric]
    using p q r by (auto simp: startsWith_def)
qed

theorem formatPhoneNumber_idempotent_witness:
  "formatPhoneNumber (formatPhoneNumber ''0300 1234567'') = formatPhoneNumber ''0300 1234567''"
  by (rule formatPhoneNumber_idempotent [of "''0300 1234567''"])

section \<open>Properties of the transcript formatter\<close>

lemma plain_text_entries_nonempty: "plain_text_entries s \<noteq> []"
  by (simp add: plain_text_entries_def Let_def)

lemma formatTranscript_string:
  "s \<noteq> [] \<Longrightarrow>
   formatTranscript parse (JStr s) =
     (if startsWith s ''['' \<or> startsWith s ''{'' then
        (case parse s of
           None \<Rightarrow> [entry (JStr ''System'') (JStr s)]
         | Some (JArr parsed) \<Rightarrow> parsed
         | Some _ \<Rightarrow> plain_text_entries s)
      else plain_text_entries s)"
  by (simp add: formatTranscript_def formatTranscript_try_def js_or_def
      split: option.splits jsval.splits)

lemma startsWith_nonempty: "startsWith s [c] \<Longrightarrow> s \<noteq> []"
  by (auto simp: startsWith_def)

lemma space_not_bracket: "is_space c \<Longrightarrow> c \<noteq> CHR ''['' \<and> c \<noteq> CHR ''{''"
  by (auto simp: is_space_def)

lemma leading_space_no_bracket:
  "s \<noteq> [] \<Longrightarrow> is_space (hd s) \<Longrightarrow> \<not> startsWith s ''['' \<and> \<not> startsWith s ''{''"
  by (cases s) (auto simp: startsWith_def dest: space_not_bracket)

lemma read_sample:
  \<open>read_json ''[{"speaker":"Agent","message":"hi"}]'' =
     Some (JArr [JObj [(''speaker'', JStr ''Agent''), (''message'', JStr ''hi'')]])\<close>
  by code_simp

lemma read_sample_after_space:
  \<open>read_json '' [{"speaker":"Agent","message":"hi"}]'' =
     Some (JArr [JObj [(''speaker'', JStr ''Agent''), (''message'', JStr ''hi'')]])\<close>
  by code_simp

lemma format_sample_after_space:
  \<open>formatTranscript read_json (JStr '' [{"speaker":"Agent","message":"hi"}]'') =
     [entry (JStr ''System'') (JStr ''[{"speaker":"Agent","message":"hi"}]'')]\<close>
  by code_simp

text \<open>
  Claim C6, as stated: a raw string whose trimmed form starts with a bracket and which parses
  as a JSON array is returned as the parsed array, also with white space before the bracket.
  The formatter tests the string as it is given, so the sample array of the specification
  after one space is formatted as a line of plain text.
\<close>

theorem formatTranscript_leading_space_counterexample:
  \<open>startsWith (trim '' [{"speaker":"Agent","message":"hi"}]'') ''[''
   \<and> read_json '' [{"speaker":"Agent","message":"hi"}]'' =
       Some (JArr [JObj [(''speaker'', JStr ''Agent''), (''message'', JStr ''hi'')]])
   \<and> formatTranscript read_json (JStr '' [{"speaker":"Agent","message":"hi"}]'') \<noteq>
       [JObj [(''speaker'', JStr ''Agent''), (''message'', JStr ''hi'')]]\<close>
proof -
  have a: \<open>startsWith (trim '' [{"speaker":"Agent","message":"hi"}]'') ''[''\<close>
    by code_simp
  have c: \<open>formatTranscript read_json (JStr '' [{"speaker":"Agent","message":"hi"}]'') \<noteq>
       [JObj [(''speaker'', JStr ''Agent''), (''message'', JStr ''hi'')]]\<close>
    by (simp add: format_sample_after_space entry_def)
  from a read_sample_after_space c show ?thesis by blast
qed

text \<open>
  Claim C6, amended. A raw string that itself starts with \<open>[\<close> or \<open>{\<close> and parses as a JSON
  array is returned as the parsed array: the same items in the same order, with no further
  validation. A string that starts with white space is formatted as plain text.
\<close>

theorem formatTranscript_array_verbatim:
  "(startsWith s ''['' \<or> startsWith s ''{'' \<longrightarrow> parse s = Some (JArr parsed) \<longrightarrow>
      formatTranscript parse (JStr s) = parsed)
   \<and> (t \<noteq> [] \<longrightarrow> is_space (hd t) \<longrightarrow>
      formatTranscript parse (JStr t) = plain_text_entries t)"
proof (intro conjI impI)
  assume b: "startsWith s ''['' \<or> startsWith s ''{''" and p: "parse s = Some (JArr parsed)"
  from b have "s \<noteq> []" by (auto dest: startsWith_nonempty)
  with b p show "formatTranscript parse (JStr s) = parsed"
    by (simp add: formatTranscript_string)
next
  assume "t \<noteq> []" and "is_space (hd t)"
  then show "formatTranscript parse (JStr t) = plain_text_entries t"
    using leading_space_no_bracket [of t] by (simp add: formatTranscript_string)
qed

theorem formatTranscript_array_verbatim_witness:
  \<open>(startsWith ''[{"speaker":"Agent","message":"hi"}]'' ''[''
      \<or> startsWith ''[{"speaker":"Agent","message":"hi"}]'' ''{'')
   \<and> read_json ''[{"speaker":"Agent","message":"hi"}]'' =
       Some (JArr [JObj [(''speaker'', JStr ''Agent''), (''message'', JStr ''hi'')]])
   \<and> formatTranscript read_json (JStr ''[{"speaker":"Agent","message":"hi"}]'') =
       [JObj [(''speaker'', JStr ''Agent''), (''message'', JStr ''hi'')]]
   \<and> '' []'' \<noteq> [] \<and> is_space (hd '' []'')
   \<and> formatTranscript read_json (JStr '' []'') = plain_text_entries '' []''\<close>
proof -
  have a: \<open>startsWith ''[{"speaker":"Agent","message":"hi"}]'' ''[''
      \<or> startsWith ''[{"speaker":"Agent","message":"hi"}]'' ''{''\<close>
    by (simp add: startsWith_def)
  have b: "'' []'' \<noteq> []" and c: "is_space (hd '' []'')"
    by (simp_all add: is_space_def)
  note inst = formatTranscript_array_verbatim
    [of \<open>''[{"speaker":"Agent","message":"hi"}]''\<close> read_json
        "[JObj [(''speaker'', JStr ''Agent''), (''message'', JStr ''hi'')]]" "'' []''"]
  from inst a read_sample b c show ?thesis by blast
qed

text \<open>
  Claim C7. A raw string that starts with \<open>[\<close> or \<open>{\<close> and is rejected by the parser makes
  the \<open>try\<close> block raise; the formatter catches the error and returns the one entry that
  holds the raw input under the speaker \<open>System\<close>.
\<close>

theorem formatTranscript_parse_failure:
  "startsWith s ''['' \<or> startsWith s ''{'' \<Longrightarrow> parse s = None \<Longrightarrow>
     formatTranscript_try parse (JStr s) = Inl SyntaxError
     \<and> formatTranscript parse (JStr s) = [entry (JStr ''System'') (JStr s)]
     \<and> formatTranscript parse (JStr s) \<noteq> []"
proof -
  assume b: "startsWith s ''['' \<or> startsWith s ''{''" and p: "parse s = None"
  from b have n: "s \<noteq> []" by (auto dest: startsWith_nonempty)
  from b p have "formatTranscript_try parse (JStr s) = Inl SyntaxError"
    by (simp add: formatTranscript_try_def)
  moreover from b p n have "formatTranscript parse (JStr s) = [entry (JStr ''System'') (JStr s)]"
    by (simp add: formatTranscript_string)
  ultimately show ?thesis by simp
qed

theorem formatTranscript_parse_failure_witness:
  "(startsWith ''[not json'' ''['' \<or> startsWith ''[not json'' ''{'')
   \<and> read_json ''[not json'' = None
   \<and> formatTranscript_try read_json (JStr ''[not json'') = Inl SyntaxError
   \<and> formatTranscript read_json (JStr ''[not json'') =
       [entry (JStr ''System'') (JStr ''[not json'')]
   \<and> formatTranscript read_json (JStr ''[not json'') \<noteq> []"
proof -
  have a: "startsWith ''[not json'' ''['' \<or> startsWith ''[not json'' ''{''"
    by (simp add: startsWith_def)
  have b: "read_json ''[not json'' = None"
    by code_simp
  from formatTranscript_parse_failure [of "''[not json''" read_json, OF a b] a b show ?thesis by blast
qed

text \<open>
  Claim C9. For a non-empty raw string the formatter returns at least one entry, except
  exactly when the string starts with \<open>[\<close> or \<open>{\<close> and parses as the empty JSON array: then
  it returns the empty sequence.
\<close>

theorem formatTranscript_empty_iff:
  "s \<noteq> [] \<Longrightarrow>
     (formatTranscript parse (JStr s) = []) =
       ((startsWith s ''['' \<or> startsWith s ''{'') \<and> parse s = Some (JArr []))"
  by (auto simp: formatTranscript_string plain_text_entries_nonempty entry_def
      split: option.splits jsval.splits)

theorem formatTranscript_empty_iff_witness:
  "''[]'' \<noteq> [] \<and> formatTranscript read_json (JStr ''[]'') = []
   \<and> ''hello'' \<noteq> [] \<and> formatTranscript read_json (JStr ''hello'') \<noteq> []"
proof -
  have a: "''[]'' \<noteq> []" and b: "''hello'' \<noteq> []"
    by simp_all
  have c: "(startsWith ''[]'' ''['' \<or> startsWith ''[]'' ''{'') \<and> read_json ''[]'' = Some (JArr [])"
    by code_simp
  have d: "\<not> ((startsWith ''hello'' ''['' \<or> startsWith ''hello'' ''{'')
             \<and> read_json ''hello'' = Some (JArr []))"
    by (simp add: startsWith_def)
  from formatTranscript_empty_iff [OF a, of read_json] formatTranscript_empty_iff [OF b, of read_json]
    a b c d show ?thesis by blast
qed

section \<open>Properties of the key information\<close>

lemma map_of_set_prop: "map_of (set_prop k v m) = (map_of m)(k \<mapsto> v)"
  by (induction m) (auto simp: fun_eq_iff)

lemma set_prop_nonempty: "set_prop k v m \<noteq> []"
  by (induction k v m rule: set_prop.induct) auto

lemma map_of_from_analysis:
  "map_of (from_analysis es m) =
     map_of m ++ map_of (rev (map (\<lambda>(key, v). (title_key key, v))
                               (filter (\<lambda>(key, v). is_primitive v) es)))"
proof (induction es arbitrary: m)
  case Nil
  then show ?case by simp
next
  case (Cons e es)
  obtain k v where e: "e = (k, v)" by (cases e)
  show ?case
    by (simp add: e Cons.IH map_of_set_prop map_add_assoc [symmetric] map_add_upd_left)
       (simp add: map_add_def fun_eq_iff split: option.splits)
qed

lemma distinct_processed: "from_processed pt = Inr p \<Longrightarrow> map_of (rev p) = map_of p"
  by (auto simp: from_processed_def fun_eq_iff split: sum.splits if_splits)

lemma from_processed_no_call_status:
  assumes "from_processed pt = Inr p"
  shows "map_of p ''Call Status'' = None"
proof -
  from assms obtain a b c where "p = [(''Call Summary'', a), (''Sentiment'', b), (''Key Points'', c)]"
    by (auto simp: from_processed_def split: sum.splits)
  then show ?thesis by simp
qed

lemma processed_no_call_status: "map_of (processed_assignments pt) ''Call Status'' = None"
proof (cases "from_processed pt")
  case (Inl e)
  then have "processed_assignments pt = []"
    by (simp add: processed_assignments_def)
  then show ?thesis by simp
next
  case (Inr p)
  then have "processed_assignments pt = [] \<or> processed_assignments pt = p"
    by (simp add: processed_assignments_def)
  with Inr show ?thesis
    by (auto simp: from_processed_no_call_status)
qed

lemma extract_shape:
  assumes "extractKeyInformation di ca pt = Inr ki"
  shows "ki = set_prop ''Phone Number'' (JStr (phone di))
               (set_prop ''Load Number'' (JStr (loadNumber di))
                 (set_prop ''Driver Name'' (JStr (name di))
                   (from_analysis (if truthy ca then own_entries ca else [])
                      (processed_assignments pt))))"
  using assms
  by (auto simp: extractKeyInformation_def processed_assignments_def Let_def set_prop_nonempty
      split: sum.splits if_splits)

lemma extract_assignments:
  assumes "extractKeyInformation di ca pt = Inr ki"
  shows "map_of ki =
           map_of (rev (processed_assignments pt @ analysis_assignments ca @ driver_assignments di))"
proof -
  have p: "map_of (rev (processed_assignments pt)) = map_of (processed_assignments pt)"
    by (auto simp: processed_assignments_def distinct_processed split: sum.splits)
  have a: "map_of (from_analysis (if truthy ca then own_entries ca else []) (processed_assignments pt))
           = map_of (processed_assignments pt) ++ map_of (rev (analysis_assignments ca))"
    by (simp add: map_of_from_analysis analysis_assignments_def)
  show ?thesis
    unfolding extract_shape [OF assms] map_of_set_prop a
    by (simp add: p driver_assignments_def fun_eq_iff map_add_def split: option.splits)
qed

lemma extract_driver_entries:
  assumes "extractKeyInformation di ca pt = Inr ki"
  shows "map_of ki ''Driver Name'' = Some (JStr (name di))"
    and "map_of ki ''Load Number'' = Some (JStr (loadNumber di))"
    and "map_of ki ''Phone Number'' = Some (JStr (phone di))"
    and "map_of ki ''Call Status'' = map_of (rev (analysis_assignments ca)) ''Call Status''"
proof -
  have p: "map_of (rev (processed_assignments pt)) ''Call Status'' = None"
    using processed_no_call_status [of pt]
    by (auto simp: processed_assignments_def distinct_processed split: sum.splits if_splits)
  show "map_of ki ''Driver Name'' = Some (JStr (name di))"
    and "map_of ki ''Load Number'' = Some (JStr (loadNumber di))"
    and "map_of ki ''Phone Number'' = Some (JStr (phone di))"
    by (simp_all add: extract_assignments [OF assms] driver_assignments_def)
  show "map_of ki ''Call Status'' = map_of (rev (analysis_assignments ca)) ''Call Status''"
    using p by (simp add: extract_assignments [OF assms] driver_assignments_def map_add_def
        split: option.splits)
qed

text \<open>
  Claim C3, as stated: a key written later never overwrites a key written earlier, so the
  \<open>Sentiment\<close> of the processed transcript is kept when the analysis has a field
  \<open>sentiment\<close>. The assignment to the object replaces the earlier value.
\<close>

theorem extractKeyInformation_overwrite_counterexample:
  "from_processed (JObj [(''summary'', JStr ''ok''), (''sentiment'', JStr ''positive'')]) =
     Inr [(''Call Summary'', JStr ''ok''), (''Sentiment'', JStr ''positive''),
          (''Key Points'', JStr ''None'')]
   \<and> title_key ''sentiment'' = ''Sentiment''
   \<and> extractKeyInformation \<lparr> name = ''Ali'', phone = ''+923001234567'', loadNumber = ''L7'' \<rparr>
       (JObj [(''sentiment'', JStr ''negative'')])
       (JObj [(''summary'', JStr ''ok''), (''sentiment'', JStr ''positive'')]) =
     Inr [(''Call Summary'', JStr ''ok''), (''Sentiment'', JStr ''negative''),
          (''Key Points'', JStr ''None''), (''Driver Name'', JStr ''Ali''),
          (''Load Number'', JStr ''L7''), (''Phone Number'', JStr ''+923001234567'')]"
  by code_simp

text \<open>
  Claim C3, amended. The value of every key of the key information is the value of the last
  assignment to that key, where the three keys of the processed transcript are assigned
  first, then the string and number fields of the analysis under their title-cased keys, in
  order, then \<open>Driver Name\<close>, \<open>Load Number\<close> and \<open>Phone Number\<close>. So an analysis field
  whose title-cased key is a key set before it replaces that value, and the driver keys
  replace every value before them.
\<close>

theorem extractKeyInformation_last_assignment:
  "extractKeyInformation di callAnalysis processedTranscript = Inr keyInfo \<Longrightarrow>
     map_of keyInfo key =
       map_of (rev (processed_assignments processedTranscript
                    @ analysis_assignments callAnalysis
                    @ driver_assignments di)) key"
  by (simp add: extract_assignments)

theorem extractKeyInformation_last_assignment_witness:
  "extractKeyInformation \<lparr> name = ''Ali'', phone = ''+923001234567'', loadNumber = ''L7'' \<rparr>
       (JObj [(''sentiment'', JStr ''negative'')])
       (JObj [(''summary'', JStr ''ok''), (''sentiment'', JStr ''positive'')]) =
     Inr [(''Call Summary'', JStr ''ok''), (''Sentiment'', JStr ''negative''),
          (''Key Points'', JStr ''None''), (''Driver Name'', JStr ''Ali''),
          (''Load Number'', JStr ''L7''), (''Phone Number'', JStr ''+923001234567'')]
   \<and> map_of [(''Call Summary'', JStr ''ok''), (''Sentiment'', JStr ''negative''),
          (''Key Points'', JStr ''None''), (''Driver Name'', JStr ''Ali''),
          (''Load Number'', JStr ''L7''), (''Phone Number'', JStr ''+923001234567'')]
        ''Sentiment'' =
       map_of (rev (processed_assignments
                      (JObj [(''summary'', JStr ''ok''), (''sentiment'', JStr ''positive'')])
                    @ analysis_assignments (JObj [(''sentiment'', JStr ''negative'')])
                    @ driver_assignments
                        \<lparr> name = ''Ali'', phone = ''+923001234567'', loadNumber = ''L7'' \<rparr>))
        ''Sentiment''"
proof -
  have h: "extractKeyInformation \<lparr> name = ''Ali'', phone = ''+923001234567'', loadNumber = ''L7'' \<rparr>
       (JObj [(''sentiment'', JStr ''negative'')])
       (JObj [(''summary'', JStr ''ok''), (''sentiment'', JStr ''positive'')]) =
     Inr [(''Call Summary'', JStr ''ok''), (''Sentiment'', JStr ''negative''),
          (''Key Points'', JStr ''None''), (''Driver Name'', JStr ''Ali''),
          (''Load Number'', JStr ''L7''), (''Phone Number'', JStr ''+923001234567'')]"
    by code_simp
  show ?thesis
    by (rule conjI [OF h extractKeyInformation_last_assignment [OF h]])
qed

section \<open>Properties of the call results\<close>

lemma fetchCallResults_cases:
  assumes "fetchCallResults parse di cid a = (rs, r)"
  shows "r = degraded_result cid
         \<or> (\<exists>callData. response_json (detailResp a) = Inr callData
               \<and> formattedResults parse di cid callData (processed_transcript (transcriptResp a))
                   = Inr r)"
  using assms by (auto simp: fetchCallResults_def split: sum.splits)

lemma formattedResults_keyInformation:
  assumes "formattedResults parse di cid callData pt = Inr r"
  shows "\<exists>ca. get_prop callData ''call_analysis'' = Inr ca
              \<and> extractKeyInformation di ca pt = Inr (keyInformation r)"
  using assms by (auto simp: formattedResults_def split: sum.splits)

lemma formattedResults_object:
  "formattedResults parse di cid (JObj kvs) JNull =
     Inr \<lparr> callId = cid,
           status = js_or (case map_of kvs ''status'' of Some v \<Rightarrow> v | None \<Rightarrow> JUndefined)
                      (JStr ''completed''),
           keyInformation =
             set_prop ''Phone Number'' (JStr (phone di))
               (set_prop ''Load Number'' (JStr (loadNumber di))
                 (set_prop ''Driver Name'' (JStr (name di))
                   (from_analysis
                      (let ca = (case map_of kvs ''call_analysis'' of Some v \<Rightarrow> v | None \<Rightarrow> JUndefined)
                       in if truthy ca then own_entries ca else []) []))),
           transcript = formatTranscript parse
             (case map_of kvs ''raw_transcript'' of Some v \<Rightarrow> v | None \<Rightarrow> JUndefined) \<rparr>"
  by (simp add: formattedResults_def extractKeyInformation_def Let_def set_prop_nonempty)

text \<open>
  Claim C2, as stated: the key information of every result has a driver name entry, a load
  number entry and a call status entry. The degraded result of a failed detail request has
  no driver name entry, and the result assembled from a detail document without analysis,
  with no processed transcript, has no call status entry.
\<close>

theorem keyInformation_entries_counterexample:
  "map_of (keyInformation (snd (fetchCallResults read_json
       \<lparr> name = ''Ali'', phone = ''+923001234567'', loadNumber = ''L7'' \<rparr> (JStr ''call_1'')
       \<lparr> statusResp = None, detailResp = None, transcriptResp = None \<rparr>))) ''Driver Name'' = None
   \<and> map_of (keyInformation (snd (fetchCallResults read_json
       \<lparr> name = ''Ali'', phone = ''+923001234567'', loadNumber = ''L7'' \<rparr> (JStr ''call_1'')
       \<lparr> statusResp = None,
         detailResp = Some \<lparr> ok = True, body = Some (JObj [(''status'', JStr ''ended'')]) \<rparr>,
         transcriptResp = None \<rparr>))) ''Call Status'' = None"
  by code_simp

text \<open>
  Claim C2, amended. A result that \<open>fetchCallResults\<close> assembles from a fetched detail
  document has the entries \<open>Driver Name\<close>, \<open>Load Number\<close> and \<open>Phone Number\<close> of the driver
  information, and it has a \<open>Call Status\<close> entry exactly when the analysis assigns one; this
  is the result for every detail document that is an object when there is no processed
  transcript. Every other result is the degraded one, whose key information is the two
  entries \<open>Call Status\<close> and \<open>Error\<close>; it is the result when the detail request fails.
\<close>

theorem keyInformation_entries:
  "(fetchCallResults parse di cid a = (rs, r) \<longrightarrow>
      (r = degraded_result cid
       \<and> keyInformation r = [(''Call Status'', JStr ''Completed''),
                              (''Error'', JStr ''Unable to fetch detailed results'')])
      \<or> (\<exists>callData ca.
            response_json (detailResp a) = Inr callData
          \<and> get_prop callData ''call_analysis'' = Inr ca
          \<and> map_of (keyInformation r) ''Driver Name'' = Some (JStr (name di))
          \<and> map_of (keyInformation r) ''Load Number'' = Some (JStr (loadNumber di))
          \<and> map_of (keyInformation r) ''Phone Number'' = Some (JStr (phone di))
          \<and> map_of (keyInformation r) ''Call Status'' =
              map_of (rev (analysis_assignments ca)) ''Call Status''))
   \<and> (response_json (detailResp a) = Inl e \<longrightarrow>
        snd (fetchCallResults parse di cid a) = degraded_result cid)
   \<and> (response_json (detailResp a) = Inr (JObj kvs) \<longrightarrow>
      processed_transcript (transcriptResp a) = JNull \<longrightarrow>
        map_of (keyInformation (snd (fetchCallResults parse di cid a))) ''Driver Name'' =
          Some (JStr (name di))
      \<and> map_of (keyInformation (snd (fetchCallResults parse di cid a))) ''Load Number'' =
          Some (JStr (loadNumber di))
      \<and> map_of (keyInformation (snd (fetchCallResults parse di cid a))) ''Phone Number'' =
          Some (JStr (phone di)))"
proof -
  have first: "(r = degraded_result cid
       \<and> keyInformation r = [(''Call Status'', JStr ''Completed''),
                              (''Error'', JStr ''Unable to fetch detailed results'')])
      \<or> (\<exists>callData ca.
            response_json (detailResp a) = Inr callData
          \<and> get_prop callData ''call_analysis'' = Inr ca
          \<and> map_of (keyInformation r) ''Driver Name'' = Some (JStr (name di))
          \<and> map_of (keyInformation r) ''Load Number'' = Some (JStr (loadNumber di))
          \<and> map_of (keyInformation r) ''Phone Number'' = Some (JStr (phone di))
          \<and> map_of (keyInformation r) ''Call Status'' =
              map_of (rev (analysis_assignments ca)) ''Call Status'')"
    if f: "fetchCallResults parse di cid a = (rs, r)"
  proof (cases "r = degraded_result cid")
    case True
    then show ?thesis by (simp add: degraded_result_def)
  next
    case False
    with fetchCallResults_cases [OF f] obtain callData where
      d: "response_json (detailResp a) = Inr callData" and
      r: "formattedResults parse di cid callData (processed_transcript (transcriptResp a)) = Inr r"
      by blast
    from formattedResults_keyInformation [OF r] obtain ca where
      c: "get_prop callData ''call_analysis'' = Inr ca" and
      k: "extractKeyInformation di ca (processed_transcript (transcriptResp a)) =
            Inr (keyInformation r)"
      by blast
    from d c extract_driver_entries [OF k] show ?thesis by blast
  qed
  have second: "response_json (detailResp a) = Inl e \<longrightarrow>
        snd (fetchCallResults parse di cid a) = degraded_result cid"
    by (simp add: fetchCallResults_def)
  have third: "response_json (detailResp a) = Inr (JObj kvs) \<longrightarrow>
      processed_transcript (transcriptResp a) = JNull \<longrightarrow>
        map_of (keyInformation (snd (fetchCallResults parse di cid a))) ''Driver Name'' =
          Some (JStr (name di))
      \<and> map_of (keyInformation (snd (fetchCallResults parse di cid a))) ''Load Number'' =
          Some (JStr (loadNumber di))
      \<and> map_of (keyInformation (snd (fetchCallResults parse di cid a))) ''Phone Number'' =
          Some (JStr (phone di))"
  proof (intro impI)
    assume d: "response_json (detailResp a) = Inr (JObj kvs)"
      and p: "processed_transcript (transcriptResp a) = JNull"
    have r: "formattedResults parse di cid (JObj kvs) JNull =
               Inr (snd (fetchCallResults parse di cid a))"
      using d p by (simp add: fetchCallResults_def formattedResults_object)
    from formattedResults_keyInformation [OF r] obtain ca where
      k: "extractKeyInformation di ca JNull =
            Inr (keyInformation (snd (fetchCallResults parse di cid a)))"
      by blast
    from extract_driver_entries [OF k]
    show "map_of (keyInformation (snd (fetchCallResults parse di cid a))) ''Driver Name'' =
            Some (JStr (name di))
        \<and> map_of (keyInformation (snd (fetchCallResults parse di cid a))) ''Load Number'' =
            Some (JStr (loadNumber di))
        \<and> map_of (keyInformation (snd (fetchCallResults parse di cid a))) ''Phone Number'' =
            Some (JStr (phone di))"
      by blast
  qed
  from first second third show ?thesis by blast
qed

theorem keyInformation_entries_witness:
  "response_json (detailResp no_answers) = Inl NetworkError
   \<and> snd (fetchCallResults read_json sample_driver (JStr ''call_1'') no_answers) =
       degraded_result (JStr ''call_1'')
   \<and> response_json (detailResp (status_answers ''ended'')) = Inr (JObj [(''status'', JStr ''ended'')])
   \<and> processed_transcript (transcriptResp (status_answers ''ended'')) = JNull
   \<and> map_of (keyInformation (snd (fetchCallResults read_json sample_driver (JStr ''call_1'')
         (status_answers ''ended'')))) ''Driver Name'' = Some (JStr (name sample_driver))
   \<and> map_of (keyInformation (snd (fetchCallResults read_json sample_driver (JStr ''call_1'')
         (status_answers ''ended'')))) ''Load Number'' = Some (JStr (loadNumber sample_driver))
   \<and> map_of (keyInformation (snd (fetchCallResults read_json sample_driver (JStr ''call_1'')
         (status_answers ''ended'')))) ''Phone Number'' = Some (JStr (phone sample_driver))
   \<and> fetchCallResults read_json sample_driver (JStr ''call_1'') no_answers =
       ([GetCall (JStr ''call_1'')], degraded_result (JStr ''call_1''))
   \<and> keyInformation (degraded_result (JStr ''call_1'')) =
       [(''Call Status'', JStr ''Completed''), (''Error'', JStr ''Unable to fetch detailed results'')]"
proof -
  have h1: "response_json (detailResp no_answers) = Inl NetworkError"
    by (simp add: no_answers_def response_json_def)
  have h2: "response_json (detailResp (status_answers ''ended'')) =
              Inr (JObj [(''status'', JStr ''ended'')])"
    by (simp add: status_answers_def json_response_def response_json_def)
  have h3: "processed_transcript (transcriptResp (status_answers ''ended'')) = JNull"
    by (simp add: status_answers_def processed_transcript_def)
  have h4: "fetchCallResults read_json sample_driver (JStr ''call_1'') no_answers =
       ([GetCall (JStr ''call_1'')], degraded_result (JStr ''call_1''))"
    by (simp add: fetchCallResults_def h1)
  have h5: "keyInformation (degraded_result (JStr ''call_1'')) =
       [(''Call Status'', JStr ''Completed''), (''Error'', JStr ''Unable to fetch detailed results'')]"
    by (simp add: degraded_result_def)
  note failing = keyInformation_entries
    [of read_json sample_driver "JStr ''call_1''" no_answers _ _ NetworkError]
  note fetched = keyInformation_entries
    [of read_json sample_driver "JStr ''call_1''" "status_answers ''ended''" _ _ _
        "[(''status'', JStr ''ended'')]"]
  from failing h1 have c1: "snd (fetchCallResults read_json sample_driver (JStr ''call_1'') no_answers) =
       degraded_result (JStr ''call_1'')"
    by blast
  from fetched h2 h3 have c2:
    "map_of (keyInformation (snd (fetchCallResults read_json sample_driver (JStr ''call_1'')
         (status_answers ''ended'')))) ''Driver Name'' = Some (JStr (name sample_driver))
   \<and> map_of (keyInformation (snd (fetchCallResults read_json sample_driver (JStr ''call_1'')
         (status_answers ''ended'')))) ''Load Number'' = Some (JStr (loadNumber sample_driver))
   \<and> map_of (keyInformation (snd (fetchCallResults read_json sample_driver (JStr ''call_1'')
         (status_answers ''ended'')))) ''Phone Number'' = Some (JStr (phone sample_driver))"
    by blast
  from h1 c1 h2 h3 c2 h4 h5 show ?thesis by blast
qed

section \<open>Properties of the manual fetch\<close>

lemma fetch_requests:
  "fst (fetchCallResults parse di cid a) =
     (case response_json (detailResp a) of
        Inl e \<Rightarrow> [GetCall cid]
      | Inr callData \<Rightarrow> [GetCall cid, GetTranscript cid])"
  by (simp add: fetchCallResults_def split: sum.splits)

lemma run_fetch_requests:
  "requests (run_fetchCallResults parse di cid a s) =
     requests s @ fst (fetchCallResults parse di cid a)"
  by (simp add: run_fetchCallResults_def send_def split: prod.splits)

lemma run_fetch_alerts: "alerts (run_fetchCallResults parse di cid a s) = alerts s"
  by (simp add: run_fetchCallResults_def send_def split: prod.splits)

lemma run_fetch_timers:
  "intervals (run_fetchCallResults parse di cid a s) = intervals s"
  "timeouts (run_fetchCallResults parse di cid a s) = timeouts s"
  by (simp_all add: run_fetchCallResults_def send_def split: prod.splits)

lemma manual_requests:
  "requests (manualFetchResults parse a s) =
     requests s @
       (if \<not> truthy (callIdToFetch s) then []
        else GetStatus (callIdToFetch s) #
          (case status_of (statusResp a) of
             Inr st \<Rightarrow>
               (if is_terminal st
                then fst (fetchCallResults parse (driverInfo s) (callIdToFetch s) a) else [])
           | Inl e \<Rightarrow> []))"
  by (simp add: manualFetchResults_def manual_try_def Let_def send_def show_alert_def
      run_fetch_requests split: sum.splits)

lemma manual_still_active:
  assumes "truthy (callIdToFetch s)" "status_of (statusResp a) = Inr st" "\<not> is_terminal st"
  shows "manualFetchResults parse a s =
           s\<lparr> requests := requests s @ [GetStatus (callIdToFetch s)],
              alerts := alerts s @ [AlertStillActive st],
              isFetchingResults := False \<rparr>"
  using assms
  by (simp add: manualFetchResults_def manual_try_def Let_def send_def show_alert_def)

lemma manual_currentCallId:
  "currentCallId (manualFetchResults parse a s) =
     (if truthy (callIdToFetch s) \<and> reports_terminal a \<and> trim (manualCallId s) \<noteq> []
      then callIdToFetch s else currentCallId s)"
  by (simp add: manualFetchResults_def manual_try_def Let_def send_def show_alert_def
      run_fetchCallResults_def reports_terminal_def split: sum.splits prod.splits)

lemma fetched_by_hand_value:
  "started_call_ids fetched_by_hand = [JStr ''call_1'']"
  "trim (manualCallId fetched_by_hand) = []"
  "currentCallId fetched_by_hand = JStr ''call_9''"
  "callIdToFetch fetched_by_hand = JStr ''call_9''"
  by code_simp+

lemma fetched_by_hand_again:
  "requests (manualFetchResults read_json (status_answers ''active'') fetched_by_hand) =
     requests fetched_by_hand @ [GetStatus (JStr ''call_9'')]"
  by code_simp

text \<open>
  Claim C8, as stated: with an empty manual field a manual fetch uses the id of the call
  started last. A manual fetch that finds a terminal status under a manual id makes that id
  the current call id: in the session where \<open>call_1\<close> is the one call started and the
  results of \<open>call_9\<close> were then fetched by hand, a manual fetch with the field emptied
  checks the status of \<open>call_9\<close>.
\<close>

theorem manualFetchResults_last_started_counterexample:
  "started_call_ids fetched_by_hand = [JStr ''call_1'']
   \<and> trim (manualCallId fetched_by_hand) = []
   \<and> callIdToFetch fetched_by_hand = JStr ''call_9''
   \<and> requests (manualFetchResults read_json (status_answers ''active'') fetched_by_hand) =
       requests fetched_by_hand @ [GetStatus (JStr ''call_9'')]"
  using fetched_by_hand_value fetched_by_hand_again by simp

text \<open>
  Claim C8, amended. A manual fetch uses the trimmed manual id when that is not empty and
  the current call id otherwise, and every request it sends is for that id, the status
  request first. A manual fetch under a manual id that finds a terminal status makes that
  id the current call id; every other manual fetch leaves the current call id as it is.
  When the status read is neither \<open>completed\<close>
  nor \<open>ended\<close>, the status request is the only request: no detail and no transcript
  request is sent, the results are left as they were, and the alert reports the status as
  still active.
\<close>

theorem manualFetchResults_status_first:
  "callIdToFetch s =
     (if trim (manualCallId s) \<noteq> [] then JStr (trim (manualCallId s)) else currentCallId s)
   \<and> (\<exists>rs. requests (manualFetchResults parse a s) = requests s @ rs
         \<and> prefix rs [GetStatus (callIdToFetch s), GetCall (callIdToFetch s),
                       GetTranscript (callIdToFetch s)])
   \<and> currentCallId (manualFetchResults parse a s) =
       (if truthy (callIdToFetch s) \<and> reports_terminal a \<and> trim (manualCallId s) \<noteq> []
        then callIdToFetch s else currentCallId s)
   \<and> (truthy (callIdToFetch s) \<longrightarrow> status_of (statusResp a) = Inr st \<longrightarrow> \<not> is_terminal st \<longrightarrow>
        requests (manualFetchResults parse a s) = requests s @ [GetStatus (callIdToFetch s)]
      \<and> alerts (manualFetchResults parse a s) = alerts s @ [AlertStillActive st]
      \<and> callResults (manualFetchResults parse a s) = callResults s)"
proof -
  have first: "callIdToFetch s =
     (if trim (manualCallId s) \<noteq> [] then JStr (trim (manualCallId s)) else currentCallId s)"
    by (simp add: callIdToFetch_def js_or_def)
  have second: "\<exists>rs. requests (manualFetchResults parse a s) = requests s @ rs
         \<and> prefix rs [GetStatus (callIdToFetch s), GetCall (callIdToFetch s),
                       GetTranscript (callIdToFetch s)]"
    unfolding manual_requests fetch_requests
    by (auto split: sum.splits)
  have third: "requests (manualFetchResults parse a s) = requests s @ [GetStatus (callIdToFetch s)]
      \<and> alerts (manualFetchResults parse a s) = alerts s @ [AlertStillActive st]
      \<and> callResults (manualFetchResults parse a s) = callResults s"
    if "truthy (callIdToFetch s)" "status_of (statusResp a) = Inr st" "\<not> is_terminal st"
    by (simp add: manual_still_active [OF that])
  from first second third manual_currentCallId [of parse a s] show ?thesis by blast
qed

theorem manualFetchResults_status_first_witness:
  "truthy (callIdToFetch (ready_session\<lparr> manualCallId := '' call_9 '', currentCallId := JStr ''call_1'' \<rparr>))
   \<and> status_of (statusResp (status_answers ''active'')) = Inr (JStr ''active'')
   \<and> \<not> is_terminal (JStr ''active'')
   \<and> callIdToFetch (ready_session\<lparr> manualCallId := '' call_9 '', currentCallId := JStr ''call_1'' \<rparr>)
       = JStr ''call_9''
   \<and> requests (manualFetchResults read_json (status_answers ''active'')
         (ready_session\<lparr> manualCallId := '' call_9 '', currentCallId := JStr ''call_1'' \<rparr>))
       = [GetStatus (JStr ''call_9'')]
   \<and> alerts (manualFetchResults read_json (status_answers ''active'')
         (ready_session\<lparr> manualCallId := '' call_9 '', currentCallId := JStr ''call_1'' \<rparr>))
       = [AlertStillActive (JStr ''active'')]"
proof -
  define s where "s = ready_session\<lparr> manualCallId := '' call_9 '', currentCallId := JStr ''call_1'' \<rparr>"
  have id: "callIdToFetch s = JStr ''call_9''"
    by (simp add: s_def callIdToFetch_def js_or_def trim_def is_space_def)
  have h1: "truthy (callIdToFetch s)"
    by (simp add: id)
  have h2: "status_of (statusResp (status_answers ''active'')) = Inr (JStr ''active'')"
    by (simp add: status_answers_def json_response_def status_of_def response_json_def)
  have h3: "\<not> is_terminal (JStr ''active'')"
    by (simp add: is_terminal_def)
  have r0: "requests s = []" and a0: "alerts s = []"
    by (simp_all add: s_def ready_session_def initial_session_def)
  from manualFetchResults_status_first [of s read_json "status_answers ''active''" "JStr ''active''"]
    h1 h2 h3
  have "requests (manualFetchResults read_json (status_answers ''active'') s) =
          requests s @ [GetStatus (callIdToFetch s)]
      \<and> alerts (manualFetchResults read_json (status_answers ''active'') s) =
          alerts s @ [AlertStillActive (JStr ''active'')]"
    by blast
  with id r0 a0 h1 h2 h3 show ?thesis
    unfolding s_def [symmetric] by simp
qed

section \<open>Properties of the poll loop\<close>

lemma send_simps:
  "requests (send rs s) = requests s @ rs"
  "alerts (send rs s) = alerts s"
  "intervals (send rs s) = intervals s"
  "timeouts (send rs s) = timeouts s"
  by (simp_all add: send_def)

lemma show_alert_simps:
  "requests (show_alert x s) = requests s"
  "alerts (show_alert x s) = alerts s @ [x]"
  "intervals (show_alert x s) = intervals s"
  "timeouts (show_alert x s) = timeouts s"
  by (simp_all add: show_alert_def)

lemma poll_tick_intervals: "intervals (snd (poll_tick parse a l s)) = intervals s"
  by (simp add: poll_tick_def Let_def run_fetch_timers send_simps show_alert_simps
      split: sum.splits)

lemma poll_tick_loop:
  "fst (poll_tick parse a l s) =
     (if reports_terminal a \<or> maxAttempts \<le> Suc (attempts l)
      then l\<lparr> attempts := Suc (attempts l), cleared := True \<rparr>
      else l\<lparr> attempts := Suc (attempts l) \<rparr>)"
  by (auto simp: poll_tick_def Let_def reports_terminal_def split: sum.splits)

lemma poll_tick_requests:
  "requests (snd (poll_tick parse a l s)) =
     requests s @ GetStatus (loop_callId l) #
       (if reports_terminal a \<or> (\<not> status_fails a \<and> maxAttempts \<le> Suc (attempts l))
        then fst (fetchCallResults parse (loop_driverInfo l) (loop_callId l) a) else [])"
  by (auto simp: poll_tick_def Let_def reports_terminal_def status_fails_def run_fetch_requests
      send_simps show_alert_simps split: sum.splits)

lemma poll_tick_alerts:
  "alerts (snd (poll_tick parse a l s)) =
     alerts s @
       (if reports_terminal a \<or> Suc (attempts l) < maxAttempts then []
        else if status_fails a then [AlertUnableToGetStatus] else [AlertTakingLonger])"
  by (auto simp: poll_tick_def Let_def reports_terminal_def status_fails_def run_fetch_alerts
      send_simps show_alert_simps split: sum.splits)

lemma interval_fires_cleared:
  "i < length (intervals s) \<Longrightarrow> cleared (intervals s ! i) \<Longrightarrow> interval_fires parse i a s = s"
  by (simp add: interval_fires_def)

lemma interval_fires_active:
  assumes "i < length (intervals s)" "\<not> cleared (intervals s ! i)"
  shows "requests (interval_fires parse i a s) = requests (snd (poll_tick parse a (intervals s ! i) s))"
    and "alerts (interval_fires parse i a s) = alerts (snd (poll_tick parse a (intervals s ! i) s))"
    and "intervals (interval_fires parse i a s) =
           (intervals s)[i := fst (poll_tick parse a (intervals s ! i) s)]"
  using assms poll_tick_intervals [of parse a "intervals s ! i" s]
  by (simp_all add: interval_fires_def case_prod_beta)

lemma periods_frozen:
  assumes "i < length (intervals (periods parse i backend m s))"
    and "cleared (intervals (periods parse i backend m s) ! i)"
    and "m \<le> n"
  shows "periods parse i backend n s = periods parse i backend m s"
  using assms(3)
proof (induction n)
  case 0
  then show ?case by simp
next
  case (Suc n)
  show ?case
  proof (cases "m = Suc n")
    case True
    then show ?thesis by simp
  next
    case False
    with Suc have "periods parse i backend n s = periods parse i backend m s" by simp
    then show ?thesis using assms(1,2) by (simp add: interval_fires_cleared)
  qed
qed

lemma periods_running:
  assumes i: "i < length (intervals s)"
    and l: "intervals s ! i = l" "attempts l = 0" "\<not> cleared l"
    and quiet: "\<forall>k<n. \<not> reports_terminal (backend k)"
    and n: "n < maxAttempts"
  shows "requests (periods parse i backend n s) = requests s @ replicate n (GetStatus (loop_callId l))
       \<and> alerts (periods parse i backend n s) = alerts s
       \<and> intervals (periods parse i backend n s) = (intervals s)[i := l\<lparr> attempts := n \<rparr>]"
  using quiet n
proof (induction n)
  case 0
  from l have e: "l\<lparr> attempts := 0 \<rparr> = intervals s ! i" by (cases l) simp
  show ?case unfolding e by simp
next
  case (Suc n)
  then have ih: "requests (periods parse i backend n s) = requests s @ replicate n (GetStatus (loop_callId l))"
    "alerts (periods parse i backend n s) = alerts s"
    "intervals (periods parse i backend n s) = (intervals s)[i := l\<lparr> attempts := n \<rparr>]"
    by simp_all
  let ?s = "periods parse i backend n s"
  have cur: "intervals ?s ! i = l\<lparr> attempts := n \<rparr>" and len: "i < length (intervals ?s)"
    using i by (simp_all add: ih)
  have act: "\<not> cleared (intervals ?s ! i)"
    using l by (simp add: cur)
  have q: "\<not> reports_terminal (backend n)" using Suc.prems by simp
  have m: "Suc n < maxAttempts" using Suc.prems by simp
  show ?case
    using q m l i
    by (simp add: interval_fires_active [OF len act] poll_tick_requests poll_tick_alerts
        poll_tick_loop cur ih replicate_append_same)
qed


lemma periods_stop:
  assumes i: "i < length (intervals s)"
    and l: "intervals s ! i = l" "attempts l = 0" "\<not> cleared l"
    and quiet: "\<forall>k<n. \<not> reports_terminal (backend k)"
    and n: "n < maxAttempts"
    and stop: "reports_terminal (backend n) \<or> Suc n = maxAttempts"
  shows "requests (periods parse i backend (Suc n) s) =
           requests s @ replicate (Suc n) (GetStatus (loop_callId l)) @
             (if reports_terminal (backend n) \<or> \<not> status_fails (backend n)
              then fst (fetchCallResults parse (loop_driverInfo l) (loop_callId l) (backend n))
              else [])"
    and "alerts (periods parse i backend (Suc n) s) =
           alerts s @
             (if reports_terminal (backend n) then []
              else if status_fails (backend n) then [AlertUnableToGetStatus]
              else [AlertTakingLonger])"
    and "intervals (periods parse i backend (Suc n) s) =
           (intervals s)[i := l\<lparr> attempts := Suc n, cleared := True \<rparr>]"
proof -
  let ?s = "periods parse i backend n s"
  from periods_running [OF i l quiet n, of parse]
  have ih: "requests ?s = requests s @ replicate n (GetStatus (loop_callId l))"
    "alerts ?s = alerts s"
    "intervals ?s = (intervals s)[i := l\<lparr> attempts := n \<rparr>]"
    by simp_all
  have cur: "intervals ?s ! i = l\<lparr> attempts := n \<rparr>" and len: "i < length (intervals ?s)"
    using i by (simp_all add: ih)
  have act: "\<not> cleared (intervals ?s ! i)"
    using l by (simp add: cur)
  show "requests (periods parse i backend (Suc n) s) =
           requests s @ replicate (Suc n) (GetStatus (loop_callId l)) @
             (if reports_terminal (backend n) \<or> \<not> status_fails (backend n)
              then fst (fetchCallResults parse (loop_driverInfo l) (loop_callId l) (backend n))
              else [])"
    using stop i
    by (auto simp: interval_fires_active [OF len act] poll_tick_requests cur ih
        replicate_append_same)
  show "alerts (periods parse i backend (Suc n) s) =
           alerts s @
             (if reports_terminal (backend n) then []
              else if status_fails (backend n) then [AlertUnableToGetStatus]
              else [AlertTakingLonger])"
    using stop i
    by (auto simp: interval_fires_active [OF len act] poll_tick_alerts cur ih)
  show "intervals (periods parse i backend (Suc n) s) =
           (intervals s)[i := l\<lparr> attempts := Suc n, cleared := True \<rparr>]"
    using stop i
    by (auto simp: interval_fires_active [OF len act] poll_tick_loop cur ih)
qed

lemma periods_after_stop:
  assumes i: "i < length (intervals s)"
    and l: "intervals s ! i = l" "attempts l = 0" "\<not> cleared l"
    and quiet: "\<forall>k<n. \<not> reports_terminal (backend k)"
    and n: "n < maxAttempts"
    and stop: "reports_terminal (backend n) \<or> Suc n = maxAttempts"
    and m: "n < m"
  shows "periods parse i backend m s = periods parse i backend (Suc n) s"
proof (rule periods_frozen)
  show "i < length (intervals (periods parse i backend (Suc n) s))"
    using i by (simp only: periods_stop(3) [OF i l quiet n stop] length_list_update)
  show "cleared (intervals (periods parse i backend (Suc n) s) ! i)"
    using i by (simp only: periods_stop(3) [OF i l quiet n stop]) simp
  show "Suc n \<le> m" using m by simp
qed

lemma terminal_not_fails: "reports_terminal a \<Longrightarrow> \<not> status_fails a"
  by (auto simp: reports_terminal_def status_fails_def split: sum.splits)

lemma fetch_requests_prefix:
  "prefix (fst (fetchCallResults parse di cid a)) [GetCall cid, GetTranscript cid]"
  by (simp add: fetch_requests split: sum.splits)

lemma fresh_loop:
  "length (intervals s) < length (intervals (pollForCallCompletion cid di s))"
  "intervals (pollForCallCompletion cid di s) ! length (intervals s) =
     \<lparr> loop_callId = cid, loop_driverInfo = di, attempts = 0, cleared = False \<rparr>"
  "requests (pollForCallCompletion cid di s) = requests s"
  "alerts (pollForCallCompletion cid di s) = alerts s"
  by (simp_all add: pollForCallCompletion_def)

lemma poll_running:
  assumes quiet: "\<forall>k<n. \<not> reports_terminal (backend k)" and n: "n < 60"
  shows "requests (poll_session parse backend cid di s n) = requests s @ replicate n (GetStatus cid)"
    and "alerts (poll_session parse backend cid di s n) = alerts s"
proof -
  let ?l = "\<lparr> loop_callId = cid, loop_driverInfo = di, attempts = 0, cleared = False \<rparr>"
  let ?s = "pollForCallCompletion cid di s"
  let ?i = "length (intervals s)"
  have i: "?i < length (intervals ?s)" and l: "intervals ?s ! ?i = ?l" "attempts ?l = 0" "\<not> cleared ?l"
    by (simp_all add: fresh_loop)
  have n': "n < maxAttempts"
    using n by (simp add: maxAttempts_def)
  from periods_running [OF i l quiet n', of parse]
  show "requests (poll_session parse backend cid di s n) = requests s @ replicate n (GetStatus cid)"
    and "alerts (poll_session parse backend cid di s n) = alerts s"
    by (simp_all add: poll_session_def fresh_loop)
qed

lemma poll_stopped:
  assumes quiet: "\<forall>k<n. \<not> reports_terminal (backend k)"
    and n: "n < 60"
    and stop: "reports_terminal (backend n) \<or> n = 59"
    and m: "n < m"
  shows "requests (poll_session parse backend cid di s m) =
           requests s @ replicate (Suc n) (GetStatus cid) @
             (if reports_terminal (backend n) \<or> \<not> status_fails (backend n)
              then fst (fetchCallResults parse di cid (backend n)) else [])"
    and "alerts (poll_session parse backend cid di s m) =
           alerts s @
             (if reports_terminal (backend n) then []
              else if status_fails (backend n) then [AlertUnableToGetStatus]
              else [AlertTakingLonger])"
    and "cleared (intervals (poll_session parse backend cid di s m) ! length (intervals s))"
proof -
  let ?l = "\<lparr> loop_callId = cid, loop_driverInfo = di, attempts = 0, cleared = False \<rparr>"
  let ?s = "pollForCallCompletion cid di s"
  let ?i = "length (intervals s)"
  have i: "?i < length (intervals ?s)" and l: "intervals ?s ! ?i = ?l" "attempts ?l = 0" "\<not> cleared ?l"
    by (simp_all add: fresh_loop)
  have n': "n < maxAttempts" and stop': "reports_terminal (backend n) \<or> Suc n = maxAttempts"
    using n stop by (auto simp: maxAttempts_def)
  have e: "poll_session parse backend cid di s m = periods parse ?i backend (Suc n) ?s"
    unfolding poll_session_def by (rule periods_after_stop [OF i l quiet n' stop' m])
  show "requests (poll_session parse backend cid di s m) =
           requests s @ replicate (Suc n) (GetStatus cid) @
             (if reports_terminal (backend n) \<or> \<not> status_fails (backend n)
              then fst (fetchCallResults parse di cid (backend n)) else [])"
    unfolding e periods_stop(1) [OF i l quiet n' stop'] by (simp add: fresh_loop)
  show "alerts (poll_session parse backend cid di s m) =
           alerts s @
             (if reports_terminal (backend n) then []
              else if status_fails (backend n) then [AlertUnableToGetStatus]
              else [AlertTakingLonger])"
    unfolding e periods_stop(2) [OF i l quiet n' stop'] by (simp add: fresh_loop)
  show "cleared (intervals (poll_session parse backend cid di s m) ! length (intervals s))"
    unfolding e periods_stop(3) [OF i l quiet n' stop'] using i by simp
qed

lemma poll_bounded:
  "\<exists>m rs. m \<le> 60
     \<and> requests (poll_session parse backend cid di s n) = requests s @ replicate m (GetStatus cid) @ rs
     \<and> prefix rs [GetCall cid, GetTranscript cid]"
proof (cases "\<exists>k<60. reports_terminal (backend k)")
  case True
  define k where "k = (LEAST k. reports_terminal (backend k))"
  from True obtain k0 where k0: "k0 < 60" "reports_terminal (backend k0)" by blast
  have t: "reports_terminal (backend k)"
    unfolding k_def using k0(2) by (rule LeastI)
  have q: "\<forall>j<k. \<not> reports_terminal (backend j)"
    unfolding k_def using not_less_Least by blast
  have "k \<le> k0" unfolding k_def using k0(2) by (rule Least_le)
  with k0 have k: "k < 60" by simp
  show ?thesis
  proof (cases "n \<le> k")
    case True
    with q k have qn: "\<forall>j<n. \<not> reports_terminal (backend j)" and n: "n < 60" by auto
    from poll_running(1) [OF qn n, of parse cid di s] n
    show ?thesis by (intro exI [of _ n] exI [of _ "[]"]) simp
  next
    case False
    then have "k < n" by simp
    from poll_stopped(1) [OF q k _ this, of parse cid di s] t k
    show ?thesis
      by (intro exI [of _ "Suc k"] exI [of _ "fst (fetchCallResults parse di cid (backend k))"])
         (simp add: fetch_requests_prefix)
  qed
next
  case False
  then have q: "\<forall>j<60. \<not> reports_terminal (backend j)" by blast
  show ?thesis
  proof (cases "n < 60")
    case True
    with q have "\<forall>j<n. \<not> reports_terminal (backend j)" by auto
    from poll_running(1) [OF this True, of parse cid di s] True
    show ?thesis by (intro exI [of _ n] exI [of _ "[]"]) simp
  next
    case False
    then have m: "59 < n" by simp
    from q have q': "\<forall>j<59. \<not> reports_terminal (backend j)" by auto
    from poll_stopped(1) [OF q' _ _ m, of parse cid di s]
    show ?thesis
      by (intro exI [of _ 60]
          exI [of _ "if reports_terminal (backend 59) \<or> \<not> status_fails (backend 59)
                     then fst (fetchCallResults parse di cid (backend 59)) else []"])
         (simp add: fetch_requests_prefix)
  qed
qed

lemma unreachable_quiet: "\<not> reports_terminal (unreachable_backend k)"
  by (simp add: unreachable_backend_def no_answers_def reports_terminal_def status_of_def
      response_json_def)

lemma unreachable_fails: "status_fails (unreachable_backend k)"
  by (simp add: unreachable_backend_def no_answers_def status_fails_def status_of_def
      response_json_def)

lemma status_of_status_answers: "status_of (statusResp (status_answers st)) = Inr (JStr st)"
  by (simp add: status_answers_def json_response_def status_of_def response_json_def)

lemma fetch_requests_status_answers:
  "fst (fetchCallResults parse di cid (status_answers st)) = [GetCall cid, GetTranscript cid]"
  by (simp add: fetch_requests status_answers_def json_response_def response_json_def)

text \<open>
  Claim C1, as stated: when all 60 attempts pass without a terminal status the loop stops
  and still performs exactly one fetch of the results. When the backend rejects every
  request, the loop stops after its 60 status checks with the alert that the status cannot
  be got, and sends no detail request.
\<close>

theorem pollForCallCompletion_no_fetch_counterexample:
  "requests (poll_session read_json unreachable_backend (JStr ''call_1'') sample_driver
             ready_session 60) = replicate 60 (GetStatus (JStr ''call_1''))
   \<and> GetCall (JStr ''call_1'') \<notin> set (requests (poll_session read_json unreachable_backend
             (JStr ''call_1'') sample_driver ready_session 60))
   \<and> alerts (poll_session read_json unreachable_backend (JStr ''call_1'') sample_driver
             ready_session 60) = [AlertUnableToGetStatus]
   \<and> cleared (intervals (poll_session read_json unreachable_backend (JStr ''call_1'')
             sample_driver ready_session 60) ! 0)"
proof -
  have q: "\<forall>k<59. \<not> reports_terminal (unreachable_backend k)"
    by (simp add: unreachable_quiet)
  have r0: "requests ready_session = []" and a0: "alerts ready_session = []"
    and i0: "length (intervals ready_session) = 0"
    by (simp_all add: ready_session_def initial_session_def)
  note stopped = poll_stopped [OF q, of 60 read_json "JStr ''call_1''" sample_driver ready_session]
  have r: "requests (poll_session read_json unreachable_backend (JStr ''call_1'') sample_driver
             ready_session 60) = replicate 60 (GetStatus (JStr ''call_1''))"
    using stopped(1) by (simp add: unreachable_quiet unreachable_fails r0)
  have a: "alerts (poll_session read_json unreachable_backend (JStr ''call_1'') sample_driver
             ready_session 60) = [AlertUnableToGetStatus]"
    using stopped(2) by (simp add: unreachable_quiet unreachable_fails a0)
  have c: "cleared (intervals (poll_session read_json unreachable_backend (JStr ''call_1'')
             sample_driver ready_session 60) ! 0)"
    using stopped(3) by (simp add: i0)
  from r a c show ?thesis by simp
qed

text \<open>
  Claim C1, amended. For every call id and every backend, in the schedules where the
  requests of a tick are answered before the next tick: the loop checks the status at most
  60 times, one check in each period of 5 seconds, and fetches the results at most once. It
  stops at the first tick whose status is \<open>completed\<close> or \<open>ended\<close> and then fetches the
  results exactly once. If none of the 60 ticks has such a status, it stops at the 60th:
  when that tick read a status it alerts that the call is taking longer and fetches the
  results exactly once; when that tick's status check failed it alerts that the status cannot
  be got and fetches nothing. After it has stopped no tick fires: the requests stay the
  same for every later time.
\<close>

theorem pollForCallCompletion_outcome:
  "(\<exists>m rs. m \<le> 60
      \<and> requests (poll_session parse backend cid di s n) =
          requests s @ replicate m (GetStatus cid) @ rs
      \<and> prefix rs [GetCall cid, GetTranscript cid])
   \<and> (fst (fetchCallResults parse di cid a) = [GetCall cid]
      \<or> fst (fetchCallResults parse di cid a) = [GetCall cid, GetTranscript cid])
   \<and> (k < 60 \<longrightarrow> (\<forall>j<k. \<not> reports_terminal (backend j)) \<longrightarrow> reports_terminal (backend k) \<longrightarrow>
      k < n \<longrightarrow>
        requests (poll_session parse backend cid di s n) =
          requests s @ replicate (Suc k) (GetStatus cid) @ fst (fetchCallResults parse di cid (backend k))
      \<and> alerts (poll_session parse backend cid di s n) = alerts s
      \<and> cleared (intervals (poll_session parse backend cid di s n) ! length (intervals s)))
   \<and> ((\<forall>j<60. \<not> reports_terminal (backend j)) \<longrightarrow> \<not> status_fails (backend 59) \<longrightarrow> 60 \<le> n \<longrightarrow>
        requests (poll_session parse backend cid di s n) =
          requests s @ replicate 60 (GetStatus cid) @ fst (fetchCallResults parse di cid (backend 59))
      \<and> alerts (poll_session parse backend cid di s n) = alerts s @ [AlertTakingLonger]
      \<and> cleared (intervals (poll_session parse backend cid di s n) ! length (intervals s)))
   \<and> ((\<forall>j<60. \<not> reports_terminal (backend j)) \<longrightarrow> status_fails (backend 59) \<longrightarrow> 60 \<le> n \<longrightarrow>
        requests (poll_session parse backend cid di s n) = requests s @ replicate 60 (GetStatus cid)
      \<and> alerts (poll_session parse backend cid di s n) = alerts s @ [AlertUnableToGetStatus]
      \<and> cleared (intervals (poll_session parse backend cid di s n) ! length (intervals s)))"
proof -
  have one: "fst (fetchCallResults parse di cid a) = [GetCall cid]
      \<or> fst (fetchCallResults parse di cid a) = [GetCall cid, GetTranscript cid]"
    by (simp add: fetch_requests split: sum.splits)
  have terminal: "requests (poll_session parse backend cid di s n) =
          requests s @ replicate (Suc k) (GetStatus cid) @ fst (fetchCallResults parse di cid (backend k))
      \<and> alerts (poll_session parse backend cid di s n) = alerts s
      \<and> cleared (intervals (poll_session parse backend cid di s n) ! length (intervals s))"
    if "k < 60" "\<forall>j<k. \<not> reports_terminal (backend j)" "reports_terminal (backend k)" "k < n"
    using poll_stopped [OF that(2) that(1) _ that(4), of parse cid di s] that(3) by simp
  have late: "requests (poll_session parse backend cid di s n) =
          requests s @ replicate 60 (GetStatus cid) @ fst (fetchCallResults parse di cid (backend 59))
      \<and> alerts (poll_session parse backend cid di s n) = alerts s @ [AlertTakingLonger]
      \<and> cleared (intervals (poll_session parse backend cid di s n) ! length (intervals s))"
    if "\<forall>j<60. \<not> reports_terminal (backend j)" "\<not> status_fails (backend 59)" "60 \<le> n"
  proof -
    from that(1) have q: "\<forall>j<59. \<not> reports_terminal (backend j)"
      and t: "\<not> reports_terminal (backend 59)" by auto
    from that(3) have m: "59 < n" by simp
    from poll_stopped [OF q _ _ m, of parse cid di s] t that(2) show ?thesis by simp
  qed
  have failed: "requests (poll_session parse backend cid di s n) =
          requests s @ replicate 60 (GetStatus cid)
      \<and> alerts (poll_session parse backend cid di s n) = alerts s @ [AlertUnableToGetStatus]
      \<and> cleared (intervals (poll_session parse backend cid di s n) ! length (intervals s))"
    if "\<forall>j<60. \<not> reports_terminal (backend j)" "status_fails (backend 59)" "60 \<le> n"
  proof -
    from that(1) have q: "\<forall>j<59. \<not> reports_terminal (backend j)"
      and t: "\<not> reports_terminal (backend 59)" by auto
    from that(3) have m: "59 < n" by simp
    from poll_stopped [OF q _ _ m, of parse cid di s] t that(2) show ?thesis by simp
  qed
  from poll_bounded [of parse backend cid di s n] one terminal late failed
  show ?thesis by blast
qed

lemma completed_on_tick_60_quiet: "j < 59 \<Longrightarrow> \<not> reports_terminal (completed_on_tick_60 j)"
  by (simp add: completed_on_tick_60_def reports_terminal_def status_of_status_answers
      is_terminal_def)

lemma completed_on_tick_60_terminal: "reports_terminal (completed_on_tick_60 59)"
  by (simp add: completed_on_tick_60_def reports_terminal_def status_of_status_answers
      is_terminal_def)

lemma always_active_quiet: "\<not> reports_terminal (always_active j)"
  by (simp add: always_active_def reports_terminal_def status_of_status_answers is_terminal_def)

lemma always_active_answers: "\<not> status_fails (always_active j)"
  by (simp add: always_active_def status_fails_def status_of_status_answers)

lemma ready_session_empty:
  "requests ready_session = []" "alerts ready_session = []" "intervals ready_session = []"
  "timeouts ready_session = []"
  by (simp_all add: ready_session_def initial_session_def)

theorem pollForCallCompletion_outcome_witness:
  "reports_terminal (completed_on_tick_60 59)
   \<and> \<not> (\<exists>j<59. reports_terminal (completed_on_tick_60 j))
   \<and> requests (poll_session read_json completed_on_tick_60 (JStr ''call_1'') sample_driver
        ready_session 61) =
       replicate 60 (GetStatus (JStr ''call_1'')) @
         [GetCall (JStr ''call_1''), GetTranscript (JStr ''call_1'')]
   \<and> alerts (poll_session read_json completed_on_tick_60 (JStr ''call_1'') sample_driver
        ready_session 61) = []
   \<and> \<not> (\<exists>j<60. reports_terminal (always_active j))
   \<and> \<not> status_fails (always_active 59)
   \<and> requests (poll_session read_json always_active (JStr ''call_1'') sample_driver
        ready_session 60) =
       replicate 60 (GetStatus (JStr ''call_1'')) @
         [GetCall (JStr ''call_1''), GetTranscript (JStr ''call_1'')]
   \<and> alerts (poll_session read_json always_active (JStr ''call_1'') sample_driver
        ready_session 60) = [AlertTakingLonger]
   \<and> status_fails (unreachable_backend 59)
   \<and> requests (poll_session read_json unreachable_backend (JStr ''call_1'') sample_driver
        ready_session 60) = replicate 60 (GetStatus (JStr ''call_1''))"
proof -
  have h1: "\<forall>j<59. \<not> reports_terminal (completed_on_tick_60 j)"
    by (simp add: completed_on_tick_60_quiet)
  have h2: "\<forall>j<60. \<not> reports_terminal (always_active j)"
    by (simp add: always_active_quiet)
  have h3: "\<forall>j<60. \<not> reports_terminal (unreachable_backend j)"
    by (simp add: unreachable_quiet)
  have f1: "fst (fetchCallResults read_json sample_driver (JStr ''call_1'') (completed_on_tick_60 59))
            = [GetCall (JStr ''call_1''), GetTranscript (JStr ''call_1'')]"
    by (simp add: completed_on_tick_60_def fetch_requests_status_answers)
  have f2: "fst (fetchCallResults read_json sample_driver (JStr ''call_1'') (always_active 59))
            = [GetCall (JStr ''call_1''), GetTranscript (JStr ''call_1'')]"
    by (simp add: always_active_def fetch_requests_status_answers)
  note completes = pollForCallCompletion_outcome
    [where parse = read_json and backend = completed_on_tick_60 and cid = "JStr ''call_1''"
       and di = sample_driver and s = ready_session and n = 61 and k = 59]
  note active = pollForCallCompletion_outcome
    [where parse = read_json and backend = always_active and cid = "JStr ''call_1''"
       and di = sample_driver and s = ready_session and n = 60]
  note unreachable = pollForCallCompletion_outcome
    [where parse = read_json and backend = unreachable_backend and cid = "JStr ''call_1''"
       and di = sample_driver and s = ready_session and n = 60]
  from completes h1 completed_on_tick_60_terminal
  have c1: "requests (poll_session read_json completed_on_tick_60 (JStr ''call_1'') sample_driver
        ready_session 61) =
       replicate 60 (GetStatus (JStr ''call_1'')) @
         [GetCall (JStr ''call_1''), GetTranscript (JStr ''call_1'')]
   \<and> alerts (poll_session read_json completed_on_tick_60 (JStr ''call_1'') sample_driver
        ready_session 61) = []"
    by (simp add: f1 ready_session_empty)
  from active h2 always_active_answers [of 59]
  have c2: "requests (poll_session read_json always_active (JStr ''call_1'') sample_driver
        ready_session 60) =
       replicate 60 (GetStatus (JStr ''call_1'')) @
         [GetCall (JStr ''call_1''), GetTranscript (JStr ''call_1'')]
   \<and> alerts (poll_session read_json always_active (JStr ''call_1'') sample_driver
        ready_session 60) = [AlertTakingLonger]"
    by (simp add: f2 ready_session_empty)
  from unreachable h3 unreachable_fails [of 59]
  have c3: "requests (poll_session read_json unreachable_backend (JStr ''call_1'') sample_driver
        ready_session 60) = replicate 60 (GetStatus (JStr ''call_1''))"
    by (simp add: ready_session_empty)
  from c1 c2 c3 h1 h2 completed_on_tick_60_terminal always_active_answers [of 59]
    unreachable_fails [of 59]
  show ?thesis by blast
qed

section \<open>Properties of the timers of a session\<close>






















end
